theory Spec2Isabelle
  imports Complex_Main "HOL-Library.Char_ord" "HOL-Library.List_Lexorder"
begin

section \<open>Python values and library functions used by the services\<close>

text \<open>
  A Python \<open>str\<close> is modelled as a \<open>string\<close>, a list of code points in the range
  U+0000..U+00FF.  Values of type \<open>Any\<close> (decoded JSON or YAML, tag lists returned by the
  language model) are values of \<open>pyval\<close>.  A float is carried as its \<open>repr\<close> text, an
  object that JSON cannot serialise (a date, a set, bytes) as its type name and its \<open>str\<close>
  text.  A \<open>dict\<close> keeps insertion order, so it is an association list.
\<close>

datatype pyval =
    PNone
  | PBool bool
  | PInt int
  | PFloat string
  | PStr string
  | PList "pyval list"
  | PDict "(pyval \<times> pyval) list"
  | PObj string string

text \<open>Every exception of the model is an instance of Python's \<open>Exception\<close>.\<close>

datatype error =
    TypeError
  | ValueError
  | AttributeError
  | KeyError
  | OSError
  | ParseError
  | StorageError
  | LibraryError

text \<open>\<open>str.isspace\<close> on one code point below U+0100.\<close>

definition py_isspace :: "char \<Rightarrow> bool" where
  "py_isspace c = ((of_char c :: nat) \<in> {9, 10, 11, 12, 13, 28, 29, 30, 31, 32, 133, 160})"

definition lstrip_ws :: "string \<Rightarrow> string" where
  "lstrip_ws s = dropWhile py_isspace s"

definition rstrip_ws :: "string \<Rightarrow> string" where
  "rstrip_ws s = rev (dropWhile py_isspace (rev s))"

text \<open>\<open>s.strip()\<close>\<close>

definition strip :: "string \<Rightarrow> string" where
  "strip s = rstrip_ws (lstrip_ws s)"

text \<open>\<open>s.lower()\<close>: A..Z and the Latin-1 capitals move up by 32, all else stays.\<close>

definition lower_char :: "char \<Rightarrow> char" where
  "lower_char c =
     (let n = (of_char c :: nat) in
      if (65 \<le> n \<and> n \<le> 90) \<or> (192 \<le> n \<and> n \<le> 222 \<and> n \<noteq> 215)
      then char_of (n + 32) else c)"

definition lower :: "string \<Rightarrow> string" where
  "lower s = map lower_char s"

text \<open>\<open>xs[:k]\<close> for an integer \<open>k\<close>: a negative bound counts from the end.\<close>

definition slice_to :: "'a list \<Rightarrow> int \<Rightarrow> 'a list" where
  "slice_to xs k =
     (if k < 0 then take (nat (int (length xs) + k)) xs else take (nat k) xs)"


section \<open>Auto-tagging service\<close>

text \<open>
  First loop of \<open>AutoTaggingService._clean_tags\<close>: keep the entries that are strings,
  stripped, when the stripped text is non-empty and shorter than 100.
\<close>

fun collect_cleaned :: "pyval list \<Rightarrow> string list \<Rightarrow> string list" where
  "collect_cleaned [] cleaned = cleaned"
| "collect_cleaned (PStr s # tags) cleaned =
     (let tag = strip s in
      if tag \<noteq> [] \<and> length tag > 0 \<and> length tag < 100
      then collect_cleaned tags (cleaned @ [tag])
      else collect_cleaned tags cleaned)"
| "collect_cleaned (_ # tags) cleaned = collect_cleaned tags cleaned"

text \<open>
  Second loop: \<open>seen\<close> holds the lower-cased tags met so far, \<open>unique\<close> the tags kept,
  in order.
\<close>

fun unique_loop :: "string list \<Rightarrow> string set \<Rightarrow> string list \<Rightarrow> string list" where
  "unique_loop [] seen unique = unique"
| "unique_loop (tag # cleaned) seen unique =
     (let tag_lower = lower tag in
      if tag_lower \<notin> seen
      then unique_loop cleaned (insert tag_lower seen) (unique @ [tag])
      else unique_loop cleaned seen unique)"

text \<open>\<open>AutoTaggingService._clean_tags\<close>\<close>

definition clean_tags :: "pyval \<Rightarrow> string list" where
  "clean_tags tags =
     (case tags of
        PList ts \<Rightarrow> take 10 (unique_loop (collect_cleaned ts []) {} [])
      | _ \<Rightarrow> [])"


text \<open>What the first loop guarantees of each tag it keeps.\<close>

definition tag_ok :: "string \<Rightarrow> bool" where
  "tag_ok t = (strip t = t \<and> t \<noteq> [] \<and> length t < 100)"


section \<open>Enhanced search service\<close>

text \<open>
  A datetime is naive or aware (the flag) and holds a count of microseconds; comparing or
  subtracting a naive and an aware value raises \<open>TypeError\<close>.
\<close>

datatype datetime = DT bool int

fun dt_less :: "datetime \<Rightarrow> datetime \<Rightarrow> error + bool" where
  "dt_less (DT a x) (DT b y) = (if a = b then Inr (x < y) else Inl TypeError)"


text \<open>
  The \<open>metadata\<close> map of a stored record and the record itself: a field is \<open>None\<close> when
  the key is absent.  \<open>relevance_score\<close> and \<open>importance\<close> are the two keys that
  \<open>search\<close> adds to a record.
\<close>

record metadata =
  file_extension :: "string option"
  md_tags :: "string list option"
  created_time :: "string option"
  md_importance :: "int option"
  context_type :: "string option"

record result =
  rid :: "string option"
  distance :: "real option"
  r_metadata :: "metadata option"
  relevance_score :: "real option"
  importance :: "int option"

text \<open>
  The storage capability and the clock, as the service sees them:
  \<open>storage.search_context(query, top_k, context_types)\<close>, which may raise,
  \<open>datetime.fromisoformat\<close>, which may raise, and \<open>datetime.now()\<close>.
\<close>

record search_env =
  search_context :: "string \<Rightarrow> int \<Rightarrow> string list option \<Rightarrow> error + result list"
  fromisoformat :: "string \<Rightarrow> error + datetime"
  now :: datetime

text \<open>The parameters of \<open>search\<close>, and their defaults.\<close>

record search_args =
  sa_query :: string
  sa_top_k :: int
  sa_context_types :: "string list option"
  sa_file_types :: "string list option"
  sa_tags :: "string list option"
  sa_date_from :: "datetime option"
  sa_date_to :: "datetime option"
  sa_min_relevance :: real
  sa_sort_by :: string

definition search_defaults :: "string \<Rightarrow> search_args" where
  "search_defaults q =
     \<lparr>sa_query = q, sa_top_k = 10, sa_context_types = None, sa_file_types = None,
      sa_tags = None, sa_date_from = None, sa_date_to = None, sa_min_relevance = 0,
      sa_sort_by = ''relevance''\<rparr>"

text \<open>Truth value of an optional list: \<open>None\<close> and the empty list are false.\<close>

definition truthy :: "'a list option \<Rightarrow> bool" where
  "truthy xs = (case xs of None \<Rightarrow> False | Some ys \<Rightarrow> ys \<noteq> [])"

definition get_default :: "'a option \<Rightarrow> 'a \<Rightarrow> 'a" where
  "get_default v d = (case v of None \<Rightarrow> d | Some x \<Rightarrow> x)"

text \<open>\<open>result.get("metadata", {})\<close>\<close>

definition empty_metadata :: metadata where
  "empty_metadata =
     \<lparr>file_extension = None, md_tags = None, created_time = None, md_importance = None,
      context_type = None\<rparr>"

definition get_metadata :: "'a result_scheme \<Rightarrow> metadata" where
  "get_metadata r = get_default (r_metadata r) empty_metadata"

text \<open>\<open>s.lstrip('.')\<close>\<close>

definition lstrip_dot :: "string \<Rightarrow> string" where
  "lstrip_dot s = dropWhile (\<lambda>c. c = CHR ''.'') s"

text \<open>
  The date filter of \<open>search\<close>: \<open>True\<close> when the loop goes on to keep the record,
  \<open>False\<close> when it reaches a \<open>continue\<close>.  Any exception inside the \<open>try\<close> is passed
  over and the record is kept.
\<close>

definition date_filter ::
  "search_env \<Rightarrow> datetime option \<Rightarrow> datetime option \<Rightarrow> metadata \<Rightarrow> bool" where
  "date_filter env date_from date_to md =
     (if date_from \<noteq> None \<or> date_to \<noteq> None then
        (case created_time md of
           None \<Rightarrow> True
         | Some created \<Rightarrow>
             if created = [] then True
             else
               (case fromisoformat env created of
                  Inl e \<Rightarrow> True
                | Inr created_dt \<Rightarrow>
                    (case (case date_from of
                             None \<Rightarrow> Inr False
                           | Some df \<Rightarrow> dt_less created_dt df) of
                       Inl e \<Rightarrow> True
                     | Inr True \<Rightarrow> False
                     | Inr False \<Rightarrow>
                         (case (case date_to of
                                  None \<Rightarrow> Inr False
                                | Some dto \<Rightarrow> dt_less dto created_dt) of
                            Inl e \<Rightarrow> True
                          | Inr True \<Rightarrow> False
                          | Inr False \<Rightarrow> True))))
      else True)"

text \<open>
  One turn of the filtering loop of \<open>search\<close>: \<open>None\<close> when the record is skipped,
  the enhanced record when it is appended.
\<close>

definition filter_result :: "search_env \<Rightarrow> search_args \<Rightarrow> result \<Rightarrow> result option" where
  "filter_result env args r =
     (if get_default (distance r) 1 < sa_min_relevance args then None
      else
        let md = get_metadata r in
        if truthy (sa_file_types args) \<and>
           lstrip_dot (get_default (file_extension md) [])
             \<notin> set (get_default (sa_file_types args) [])
        then None
        else if truthy (sa_tags args) \<and>
           \<not> list_ex (\<lambda>tag. tag \<in> set (get_default (md_tags md) []))
                (get_default (sa_tags args) [])
        then None
        else if \<not> date_filter env (sa_date_from args) (sa_date_to args) md then None
        else Some (r\<lparr>relevance_score := Some (1 - get_default (distance r) 0),
                       importance := Some (get_default (md_importance md) 50)\<rparr>))"

text \<open>\<open>xs.sort(key=f, reverse=True)\<close>: descending and stable.\<close>

definition sort_desc :: "('a \<Rightarrow> 'k::linorder) \<Rightarrow> 'a list \<Rightarrow> 'a list" where
  "sort_desc f xs = rev (sort_key f (rev xs))"

definition sort_results :: "string \<Rightarrow> result list \<Rightarrow> result list" where
  "sort_results sort_by rs =
     (if sort_by = ''relevance'' then
        sort_desc (\<lambda>x. get_default (relevance_score x) 0) rs
      else if sort_by = ''date'' then
        sort_desc (\<lambda>x. get_default (created_time (get_metadata x)) []) rs
      else if sort_by = ''importance'' then
        sort_desc (\<lambda>x. get_default (importance x) 0) rs
      else rs)"

text \<open>\<open>EnhancedSearchService.search\<close>.  An exception of the storage call is caught.\<close>

definition search :: "search_env \<Rightarrow> search_args \<Rightarrow> result list" where
  "search env args =
     (case search_context env (sa_query args) (sa_top_k args * 2) (sa_context_types args) of
        Inl e \<Rightarrow> []
      | Inr results \<Rightarrow>
          if results = [] then []
          else
            let filtered_results = List.map_filter (filter_result env args) results
            in slice_to (sort_results (sa_sort_by args) filtered_results) (sa_top_k args))"

text \<open>\<open>sep.join(xs)\<close>\<close>

fun join :: "string \<Rightarrow> string list \<Rightarrow> string" where
  "join sep [] = []"
| "join sep [x] = x"
| "join sep (x # y # ys) = x @ sep @ join sep (y # ys)"

text \<open>\<open>EnhancedSearchService.search_by_tags\<close>\<close>

definition search_by_tags :: "search_env \<Rightarrow> string list \<Rightarrow> int \<Rightarrow> bool \<Rightarrow> result list" where
  "search_by_tags env tags top_k match_all =
     (let query = join '' '' tags;
          results = search env ((search_defaults query)
                      \<lparr>sa_top_k := top_k,
                       sa_tags := (if \<not> match_all then Some tags else None)\<rparr>)
      in if match_all then
           slice_to
             (filter (\<lambda>result. list_all
                        (\<lambda>tag. tag \<in> set (get_default (md_tags (get_metadata result)) []))
                        tags)
                results)
             top_k
         else results)"



fun dict_set :: "('k \<times> 'v) list \<Rightarrow> 'k \<Rightarrow> 'v \<Rightarrow> ('k \<times> 'v) list" where
  "dict_set [] k v = [(k, v)]"
| "dict_set ((k', v') # d) k v =
     (if k' = k then (k', v) # d else (k', v') # dict_set d k v)"










section \<open>Shared pieces of the format processors\<close>

definition nl :: string where
  "nl = [CHR 0x0A]"

text \<open>\<open>str(n)\<close> for an integer.\<close>

fun str_nat :: "nat \<Rightarrow> string" where
  "str_nat n =
     (if n < 10 then [''0123456789'' ! n]
      else str_nat (n div 10) @ [''0123456789'' ! (n mod 10)])"

declare str_nat.simps [simp del]

definition str_int :: "int \<Rightarrow> string" where
  "str_int i = (if i < 0 then CHR ''-'' # str_nat (nat (- i)) else str_nat (nat i))"

text \<open>
  \<open>s.capitalize()\<close>: the first code point in upper case, the rest in lower case.  A
  code point whose upper case lies beyond U+00FF is left as it is.
\<close>

definition upper_char :: "char \<Rightarrow> char" where
  "upper_char c =
     (let n = (of_char c :: nat) in
      if (97 \<le> n \<and> n \<le> 122) \<or> (224 \<le> n \<and> n \<le> 254 \<and> n \<noteq> 247)
      then char_of (n - 32) else c)"

fun capitalize :: "string \<Rightarrow> string" where
  "capitalize [] = []"
| "capitalize (c # cs) = upper_char c # lower cs"

text \<open>\<open>s.split('\n')\<close>: the pieces between line feeds, at least one.\<close>

fun split_lines :: "string \<Rightarrow> string list" where
  "split_lines [] = [[]]"
| "split_lines (c # cs) =
     (if c = CHR 0x0A then [] # split_lines cs
      else (case split_lines cs of
              [] \<Rightarrow> [[c]]
            | l # ls \<Rightarrow> (c # l) # ls))"

text \<open>\<open>xs[a:b]\<close> for bounds that are not negative.\<close>

definition slice :: "'a list \<Rightarrow> nat \<Rightarrow> nat \<Rightarrow> 'a list" where
  "slice xs a b = drop a (take b xs)"

text \<open>\<open>range(start, stop, step)\<close>; a step of zero raises \<open>ValueError\<close>.\<close>

function range_up :: "int \<Rightarrow> int \<Rightarrow> int \<Rightarrow> int list" where
  "range_up i stop step =
     (if 0 < step \<and> i < stop then i # range_up (i + step) stop step else [])"
  by pat_completeness auto
termination
  by (relation "measure (\<lambda>(i, stop, step). nat (stop - i))") auto

declare range_up.simps [simp del]

function range_down :: "int \<Rightarrow> int \<Rightarrow> int \<Rightarrow> int list" where
  "range_down i stop step =
     (if step < 0 \<and> stop < i then i # range_down (i + step) stop step else [])"
  by pat_completeness auto
termination
  by (relation "measure (\<lambda>(i, stop, step). nat (i - stop))") auto

declare range_down.simps [simp del]

definition py_range :: "int \<Rightarrow> int \<Rightarrow> int \<Rightarrow> error + int list" where
  "py_range start stop step =
     (if step = 0 then Inl ValueError
      else if 0 < step then Inr (range_up start stop step)
      else Inr (range_down start stop step))"

text \<open>Sequencing of steps that may raise.\<close>

definition and_then :: "error + 'a \<Rightarrow> ('a \<Rightarrow> error + 'b) \<Rightarrow> error + 'b" where
  "and_then m f = (case m of Inl e \<Rightarrow> Inl e | Inr x \<Rightarrow> f x)"

text \<open>\<open>d[k]\<close> on a dictionary with string keys: \<open>KeyError\<close> when the key is absent.\<close>

definition item :: "(string \<times> 'v) list \<Rightarrow> string \<Rightarrow> error + 'v" where
  "item d k = (case map_of d k of None \<Rightarrow> Inl KeyError | Some v \<Rightarrow> Inr v)"

text \<open>\<open>type(v).__name__\<close>\<close>

fun type_name :: "pyval \<Rightarrow> string" where
  "type_name PNone = ''NoneType''"
| "type_name (PBool b) = ''bool''"
| "type_name (PInt i) = ''int''"
| "type_name (PFloat r) = ''float''"
| "type_name (PStr s) = ''str''"
| "type_name (PList xs) = ''list''"
| "type_name (PDict kvs) = ''dict''"
| "type_name (PObj t s) = t"

text \<open>
  \<open>str(v)\<close> as an f-string renders a value that is not a container.  The processors
  test \<open>isinstance(v, (dict, list))\<close> before they format a value this way, so the last
  equation is never used.
\<close>

fun str_scalar :: "pyval \<Rightarrow> string" where
  "str_scalar PNone = ''None''"
| "str_scalar (PBool b) = (if b then ''True'' else ''False'')"
| "str_scalar (PInt i) = str_int i"
| "str_scalar (PFloat r) = r"
| "str_scalar (PStr s) = s"
| "str_scalar (PObj t s) = s"
| "str_scalar _ = []"

text \<open>The input envelope: \<open>RawContextProperties\<close>.\<close>

record raw_context =
  source :: string
  content_path :: "string option"
  object_id :: string

text \<open>
  Modelled from the spec: the classes \<open>Chunk\<close> and \<open>ProcessedContext\<close> of
  \<open>opencontext.models.context\<close> are not among the sources.  Section 3 of the
  specification gives their fields; keywords and entities are lists of strings, so the
  constructor of a chunk raises when one of them is not a string (\<open>None\<close> below).  The two timestamps of the
  properties are the wall-clock time of the call and are left out.
\<close>

record chunk =
  chunk_text :: string
  chunk_index :: int
  chunk_keywords :: "string list"
  chunk_entities :: "string list"

definition Chunk ::
  "string \<Rightarrow> int \<Rightarrow> string option list \<Rightarrow> string option list \<Rightarrow> error + chunk" where
  "Chunk txt idx kws ents =
     (if None \<in> set kws \<or> None \<in> set ents then Inl ValueError
      else Inr \<lparr>chunk_text = txt, chunk_index = idx, chunk_keywords = map the kws,
                chunk_entities = map the ents\<rparr>)"

record processed_context =
  pc_id :: string
  pc_title :: string
  pc_summary :: string
  pc_keywords :: "string list"
  pc_entities :: "string list"
  pc_confidence :: int
  pc_importance :: int
  pc_source :: string
  pc_content_path :: "string option"
  pc_additional_metadata :: "(string \<times> pyval) list"
  pc_chunks :: "chunk list"

text \<open>
  \<open>pathlib.Path\<close>: the final component of a path and its suffix.
\<close>

record path_env =
  path_name :: "string \<Rightarrow> string"
  path_suffix :: "string \<Rightarrow> string"


section \<open>Code processor\<close>

text \<open>
  \<open>LANGUAGE_PATTERNS\<close>: the pattern kinds registered for each language.  The text of a
  regular expression is read by the \<open>re\<close> module only, which the environment stands for:
  it is addressed by the language and the kind.
\<close>

definition LANGUAGE_PATTERNS :: "(string \<times> string list) list" where
  "LANGUAGE_PATTERNS =
     [(''python'', [''function'', ''class'', ''import'', ''comment'', ''docstring'']),
      (''javascript'', [''function'', ''class'', ''import'', ''comment'', ''block_comment'']),
      (''java'', [''function'', ''class'', ''import'', ''comment'', ''block_comment'']),
      (''go'', [''function'', ''struct'', ''import'', ''comment'', ''block_comment''])]"

definition EXTENSION_TO_LANGUAGE :: "(string \<times> string) list" where
  "EXTENSION_TO_LANGUAGE =
     [(''.py'', ''python''), (''.js'', ''javascript''), (''.jsx'', ''javascript''),
      (''.ts'', ''javascript''), (''.tsx'', ''javascript''), (''.java'', ''java''),
      (''.go'', ''go''), (''.c'', ''c''), (''.cpp'', ''cpp''), (''.h'', ''c''),
      (''.hpp'', ''cpp''), (''.cs'', ''csharp''), (''.rb'', ''ruby''), (''.php'', ''php''),
      (''.swift'', ''swift''), (''.kt'', ''kotlin''), (''.rs'', ''rust'')]"

text \<open>
  A match object: \<open>lastindex\<close> and \<open>group(1)\<close>, which is \<open>None\<close> when the first group
  took no part in the match.
\<close>

record re_match =
  lastindex :: "nat option"
  group1 :: "string option"

text \<open>
  What the processor asks of its surroundings: reading the file (\<open>open\<close> and \<open>read\<close>),
  \<open>re.match(pattern, line)\<close> and \<open>re.findall(pattern, code, re.MULTILINE)\<close>, the latter
  giving the groups of each match.
\<close>

record code_env = path_env +
  read_text :: "string \<Rightarrow> error + string"
  re_match_line :: "string \<Rightarrow> string \<Rightarrow> string \<Rightarrow> re_match option"
  re_findall :: "string \<Rightarrow> string \<Rightarrow> string \<Rightarrow> string list list"

record code_config =
  cc_enabled :: bool
  max_lines_per_chunk :: int
  cc_extract_functions :: bool
  cc_extract_classes :: bool
  cc_extract_imports :: bool

text \<open>\<open>CodeProcessor._detect_language\<close>, on the suffix of the path.\<close>

definition detect_language :: "string \<Rightarrow> string" where
  "detect_language suffix = get_default (map_of EXTENSION_TO_LANGUAGE (lower suffix)) ''unknown''"

text \<open>\<open>CodeProcessor._extract_code_metadata\<close>\<close>

definition extract_code_metadata ::
  "code_config \<Rightarrow> 'a code_env_scheme \<Rightarrow> string \<Rightarrow> string \<Rightarrow> string
     \<Rightarrow> (string \<times> pyval) list" where
  "extract_code_metadata cfg env code language file_path =
     (let lines = split_lines code;
          metadata = [(''file_name'', PStr (path_name env file_path)),
                      (''file_path'', PStr file_path),
                      (''language'', PStr language),
                      (''total_lines'', PInt (int (length lines))),
                      (''non_empty_lines'', PInt (int (length (filter (\<lambda>l. strip l \<noteq> []) lines))))]
      in case map_of LANGUAGE_PATTERNS language of
           None \<Rightarrow> metadata
         | Some patterns \<Rightarrow>
             let m1 = (if cc_extract_functions cfg \<and> ''function'' \<in> set patterns then
                         let functions = filter (\<lambda>f. f \<noteq> [])
                                           (concat (re_findall env language ''function'' code))
                         in metadata @ [(''functions'', PList (map PStr functions)),
                                        (''num_functions'', PInt (int (length functions)))]
                       else metadata);
                 m2 = (if cc_extract_classes cfg \<and> ''class'' \<in> set patterns then
                         let classes = concat (re_findall env language ''class'' code)
                         in m1 @ [(''classes'', PList (map PStr classes)),
                                  (''num_classes'', PInt (int (length classes)))]
                       else m1)
             in (if cc_extract_imports cfg \<and> ''import'' \<in> set patterns then
                   let imports = concat (re_findall env language ''import'' code)
                   in m2 @ [(''imports'', PList (map PStr (take 20 imports))),
                            (''num_imports'', PInt (int (length imports)))]
                 else m2))"

text \<open>
  \<open>CodeProcessor._chunk_by_lines\<close>: the loop over \<open>range(0, len(lines), max_lines)\<close>,
  with the chunks built so far.
\<close>

fun chunk_by_lines_loop ::
  "code_config \<Rightarrow> string list \<Rightarrow> string \<Rightarrow> int \<Rightarrow> int list \<Rightarrow> chunk list
     \<Rightarrow> error + chunk list" where
  "chunk_by_lines_loop cfg lines file_name start_idx [] chunks = Inr chunks"
| "chunk_by_lines_loop cfg lines file_name start_idx (i # is) chunks =
     (let chunk_lines = slice lines (nat i) (nat (i + max_lines_per_chunk cfg));
          chunk_text = ''Lines '' @ str_int (i + 1) @ ''-''
                         @ str_int (i + int (length chunk_lines)) @ nl @ nl
                         @ join nl chunk_lines
      in and_then
           (Chunk chunk_text (start_idx + int (length chunks))
              [Some file_name,
               Some (''lines_'' @ str_int (i + 1) @ ''_''
                       @ str_int (i + int (length chunk_lines)))]
              [])
           (\<lambda>c. chunk_by_lines_loop cfg lines file_name start_idx is (chunks @ [c])))"

definition chunk_by_lines ::
  "code_config \<Rightarrow> string list \<Rightarrow> string \<Rightarrow> int \<Rightarrow> error + chunk list" where
  "chunk_by_lines cfg lines file_name start_idx =
     and_then (py_range 0 (int (length lines)) (max_lines_per_chunk cfg))
       (\<lambda>is. chunk_by_lines_loop cfg lines file_name start_idx is [])"

text \<open>An element found by \<open>_chunk_by_syntax\<close>: its kind, its name and its line.\<close>

record element =
  el_type :: string
  el_name :: "string option"
  el_line :: nat

text \<open>The inner loop of the search for elements: the three kinds tried on one line.\<close>

fun match_kinds ::
  "'a code_env_scheme \<Rightarrow> string \<Rightarrow> string list \<Rightarrow> nat \<Rightarrow> string \<Rightarrow> string list
     \<Rightarrow> element list" where
  "match_kinds env language patterns i line [] = []"
| "match_kinds env language patterns i line (element_type # kinds) =
     (if element_type \<in> set patterns then
        (case re_match_line env language element_type line of
           None \<Rightarrow> []
         | Some m \<Rightarrow>
             [\<lparr>el_type = element_type,
               el_name = (if lastindex m \<noteq> None then group1 m else Some ''unknown''),
               el_line = i\<rparr>])
      else [])
     @ match_kinds env language patterns i line kinds"

text \<open>The outer loop, over \<open>enumerate(lines)\<close>.\<close>

fun find_elements ::
  "'a code_env_scheme \<Rightarrow> string \<Rightarrow> string list \<Rightarrow> nat \<Rightarrow> string list \<Rightarrow> element list" where
  "find_elements env language patterns i [] = []"
| "find_elements env language patterns i (line # lines) =
     match_kinds env language patterns i line [''function'', ''class'', ''struct'']
     @ find_elements env language patterns (Suc i) lines"

text \<open>
  The loop of \<open>_chunk_by_syntax\<close> over \<open>enumerate(elements)\<close>: the elements still to
  come (the next one gives the end line) and the chunks built so far.
\<close>

fun element_chunks_loop ::
  "string list \<Rightarrow> string \<Rightarrow> string \<Rightarrow> element list \<Rightarrow> chunk list \<Rightarrow> error + chunk list" where
  "element_chunks_loop lines language file_name [] chunks = Inr chunks"
| "element_chunks_loop lines language file_name (el # els) chunks =
     (let start_line = el_line el;
          end_line = (case els of [] \<Rightarrow> length lines | nxt # _ \<Rightarrow> el_line nxt);
          chunk_lines = slice lines start_line end_line;
          chunk_text = capitalize (el_type el) @ '': ''
                         @ (case el_name el of None \<Rightarrow> ''None'' | Some n \<Rightarrow> n) @ nl
                         @ ''Lines '' @ str_int (int start_line + 1) @ ''-''
                         @ str_int (int end_line) @ nl @ nl
                         @ join nl chunk_lines
      in and_then
           (Chunk chunk_text (int (length chunks) + 1)
              [Some file_name, Some language, Some (el_type el), el_name el]
              [el_name el])
           (\<lambda>c. element_chunks_loop lines language file_name els (chunks @ [c])))"

text \<open>\<open>CodeProcessor._chunk_by_syntax\<close>\<close>

definition chunk_by_syntax ::
  "code_config \<Rightarrow> 'a code_env_scheme \<Rightarrow> string \<Rightarrow> string \<Rightarrow> string \<Rightarrow> error + chunk list" where
  "chunk_by_syntax cfg env code language file_name =
     (let patterns = get_default (map_of LANGUAGE_PATTERNS language) [];
          lines = split_lines code;
          elements = find_elements env language patterns 0 lines
      in and_then (element_chunks_loop lines language file_name elements [])
           (\<lambda>chunks. if chunks = [] then chunk_by_lines cfg lines file_name 1
                      else Inr chunks))"

text \<open>\<open>CodeProcessor._create_chunks_from_code\<close>\<close>

definition create_chunks_from_code ::
  "code_config \<Rightarrow> 'a code_env_scheme \<Rightarrow> string \<Rightarrow> string \<Rightarrow> string \<Rightarrow> error + chunk list" where
  "create_chunks_from_code cfg env code language file_name =
     (let lines = split_lines code;
          preview_lines = min 20 (length lines);
          overview_text = ''Code File: '' @ file_name @ nl
                            @ ''Language: '' @ language @ nl
                            @ ''Total Lines: '' @ str_int (int (length lines)) @ nl
                            @ nl @ ''First '' @ str_int (int preview_lines) @ '' lines:'' @ nl
                            @ join nl (take preview_lines lines)
      in and_then
           (Chunk overview_text 0
              [Some file_name, Some language, Some ''code'', Some ''overview''] [])
           (\<lambda>c. let chunks = [c] in
              and_then
                (if map_of LANGUAGE_PATTERNS language \<noteq> None
                 then chunk_by_syntax cfg env code language file_name
                 else chunk_by_lines cfg lines file_name (int (length chunks)))
                (\<lambda>more. Inr (chunks @ more))))"

text \<open>The strings of a list value; \<open>TypeError\<close> stands for a use that does not fit.\<close>

fun str_list :: "pyval \<Rightarrow> error + string list" where
  "str_list (PList xs) =
     (if list_all (\<lambda>x. case x of PStr s \<Rightarrow> True | _ \<Rightarrow> False) xs
      then Inr (map str_scalar xs) else Inl ValueError)"
| "str_list _ = Inl TypeError"

text \<open>\<open>CodeProcessor._create_processed_context\<close>\<close>

definition code_create_processed_context ::
  "raw_context \<Rightarrow> chunk list \<Rightarrow> (string \<times> pyval) list \<Rightarrow> string
     \<Rightarrow> error + processed_context option" where
  "code_create_processed_context raw chunks metadata language =
     (if chunks = [] then Inr None
      else
        and_then (item metadata ''file_name'') (\<lambda>title.
        and_then (item metadata ''total_lines'') (\<lambda>total_lines.
        and_then (case map_of metadata ''functions'' of
                    None \<Rightarrow> Inr [] | Some v \<Rightarrow> str_list v) (\<lambda>functions.
        and_then (case map_of metadata ''classes'' of
                    None \<Rightarrow> Inr [] | Some v \<Rightarrow> str_list v) (\<lambda>classes.
          let summary =
                capitalize language @ '' code with '' @ str_scalar total_lines @ '' lines''
                @ (case map_of metadata ''num_functions'' of
                     None \<Rightarrow> [] | Some n \<Rightarrow> '', '' @ str_scalar n @ '' functions'')
                @ (case map_of metadata ''num_classes'' of
                     None \<Rightarrow> [] | Some n \<Rightarrow> '', '' @ str_scalar n @ '' classes'');
              keywords = [str_scalar title, language, ''code'']
                           @ take 10 functions @ take 10 classes;
              entities = functions @ classes
          in Inr (Some
               \<lparr>pc_id = object_id raw,
                pc_title = str_scalar title,
                pc_summary = summary,
                pc_keywords = keywords,
                pc_entities = take 20 entities,
                pc_confidence = 90,
                pc_importance = 80,
                pc_source = source raw,
                pc_content_path = content_path raw,
                pc_additional_metadata = metadata @ [(''processor'', PStr ''code_processor'')],
                pc_chunks = chunks\<rparr>))))))"

text \<open>
  The body of the \<open>try\<close> of \<open>CodeProcessor.process\<close>.  \<open>Path(None)\<close> raises
  \<open>TypeError\<close>.
\<close>

definition code_process_body ::
  "code_config \<Rightarrow> 'a code_env_scheme \<Rightarrow> raw_context \<Rightarrow> error + processed_context list" where
  "code_process_body cfg env context =
     (case content_path context of
        None \<Rightarrow> Inl TypeError
      | Some file_path \<Rightarrow>
          and_then (read_text env file_path) (\<lambda>code_content.
            let language = detect_language (path_suffix env file_path);
                metadata = extract_code_metadata cfg env code_content language file_path
            in and_then
                 (create_chunks_from_code cfg env code_content language
                    (path_name env file_path)) (\<lambda>chunks.
               and_then (code_create_processed_context context chunks metadata language)
                 (\<lambda>processed_context.
                    case processed_context of
                      Some pc \<Rightarrow> Inr [pc]
                    | None \<Rightarrow> Inr []))))"

text \<open>
  A \<open>process\<close> method: the handler \<open>except Exception\<close> logs and returns the empty list.
  The value is \<open>Inr\<close> when the call returns and \<open>Inl\<close> when an exception leaves it.
\<close>

definition isolate :: "error + 'a list \<Rightarrow> error + 'a list" where
  "isolate body = (case body of Inl e \<Rightarrow> Inr [] | Inr r \<Rightarrow> Inr r)"

text \<open>\<open>CodeProcessor.process\<close>\<close>

definition code_process ::
  "code_config \<Rightarrow> 'a code_env_scheme \<Rightarrow> raw_context \<Rightarrow> error + processed_context list" where
  "code_process cfg env context = isolate (code_process_body cfg env context)"


section \<open>Structured data processor\<close>

text \<open>
  \<open>json.dumps(v, indent=2, ensure_ascii=False)\<close>.  A string is quoted, with the
  escapes of the \<open>json\<close> module; a float stands for a finite one, written as its
  \<open>repr\<close>; a key that is a container or an object raises \<open>TypeError\<close>, as does a
  value that is an object.
\<close>

definition dq :: string where
  "dq = [CHR 0x22]"

definition backslash :: string where
  "backslash = [CHR 0x5C]"

definition escape_char :: "char \<Rightarrow> string" where
  "escape_char c =
     (let n = (of_char c :: nat) in
      if n = 92 then backslash @ backslash
      else if n = 34 then backslash @ dq
      else if n = 8 then backslash @ ''b''
      else if n = 12 then backslash @ ''f''
      else if n = 10 then backslash @ ''n''
      else if n = 13 then backslash @ ''r''
      else if n = 9 then backslash @ ''t''
      else if n < 32 then
        backslash @ ''u00'' @ [''0123456789abcdef'' ! (n div 16),
                               ''0123456789abcdef'' ! (n mod 16)]
      else [c])"

definition encode_basestring :: "string \<Rightarrow> string" where
  "encode_basestring s = dq @ concat (map escape_char s) @ dq"

definition indent_of :: "nat \<Rightarrow> string" where
  "indent_of level = replicate (2 * level) CHR '' ''"

fun dumps_key :: "pyval \<Rightarrow> error + string" where
  "dumps_key (PStr s) = Inr (encode_basestring s)"
| "dumps_key (PFloat r) = Inr (encode_basestring r)"
| "dumps_key (PBool b) = Inr (encode_basestring (if b then ''true'' else ''false''))"
| "dumps_key PNone = Inr (encode_basestring ''null'')"
| "dumps_key (PInt i) = Inr (encode_basestring (str_int i))"
| "dumps_key _ = Inl TypeError"

fun dumps_at :: "nat \<Rightarrow> pyval \<Rightarrow> error + string"
  and dumps_items :: "nat \<Rightarrow> pyval list \<Rightarrow> error + string list"
  and dumps_pairs :: "nat \<Rightarrow> (pyval \<times> pyval) list \<Rightarrow> error + string list" where
  "dumps_at level PNone = Inr ''null''"
| "dumps_at level (PBool b) = Inr (if b then ''true'' else ''false'')"
| "dumps_at level (PInt i) = Inr (str_int i)"
| "dumps_at level (PFloat r) = Inr r"
| "dumps_at level (PStr s) = Inr (encode_basestring s)"
| "dumps_at level (PObj t s) = Inl TypeError"
| "dumps_at level (PList xs) =
     (if xs = [] then Inr ''[]''
      else and_then (dumps_items (Suc level) xs)
             (\<lambda>items. Inr (''['' @ nl @ indent_of (Suc level)
                            @ join ('','' @ nl @ indent_of (Suc level)) items
                            @ nl @ indent_of level @ '']'')))"
| "dumps_at level (PDict kvs) =
     (if kvs = [] then Inr ''{}''
      else and_then (dumps_pairs (Suc level) kvs)
             (\<lambda>items. Inr (''{'' @ nl @ indent_of (Suc level)
                            @ join ('','' @ nl @ indent_of (Suc level)) items
                            @ nl @ indent_of level @ ''}'')))"
| "dumps_items level [] = Inr []"
| "dumps_items level (x # xs) =
     and_then (dumps_at level x)
       (\<lambda>sx. and_then (dumps_items level xs) (\<lambda>rest. Inr (sx # rest)))"
| "dumps_pairs level [] = Inr []"
| "dumps_pairs level (kv # kvs) =
     and_then (dumps_key (fst kv))
       (\<lambda>sk. and_then (dumps_at level (snd kv))
          (\<lambda>sv. and_then (dumps_pairs level kvs)
             (\<lambda>rest. Inr ((sk @ '': '' @ sv) # rest))))"

definition json_dumps :: "pyval \<Rightarrow> error + string" where
  "json_dumps v = dumps_at 0 v"

text \<open>\<open>if len(s) > n: s = s[:n] + "\n... (truncated)"\<close>\<close>

definition truncate_to :: "nat \<Rightarrow> string \<Rightarrow> string" where
  "truncate_to n s = (if length s > n then take n s @ nl @ ''... (truncated)'' else s)"

text \<open>
  The surroundings of the processor: reading the file as UTF-8 text, \<open>json.loads\<close> and
  \<open>yaml.safe_load\<close>; each may raise.
\<close>

record sd_env = path_env +
  sd_read_text :: "string \<Rightarrow> error + string"
  json_loads :: "string \<Rightarrow> error + pyval"
  yaml_safe_load :: "string \<Rightarrow> error + pyval"

record sd_config =
  sd_enabled :: bool
  max_depth :: int
  max_array_items_per_chunk :: int
  preserve_structure :: bool

text \<open>The lines of a text file as iteration over it gives them, each with its end.\<close>

fun file_lines_from :: "string \<Rightarrow> string \<Rightarrow> string list" where
  "file_lines_from cur [] = (if cur = [] then [] else [cur])"
| "file_lines_from cur (c # cs) =
     (if c = CHR 0x0A then (cur @ [c]) # file_lines_from [] cs
      else file_lines_from (cur @ [c]) cs)"

definition file_lines :: "string \<Rightarrow> string list" where
  "file_lines s = file_lines_from [] s"

text \<open>The list comprehension of the \<open>.jsonl\<close> branch: one value for each line.\<close>

fun loads_lines :: "'a sd_env_scheme \<Rightarrow> string list \<Rightarrow> error + pyval list" where
  "loads_lines env [] = Inr []"
| "loads_lines env (line # lines) =
     (if strip line \<noteq> [] then
        and_then (json_loads env line)
          (\<lambda>v. and_then (loads_lines env lines) (\<lambda>vs. Inr (v # vs)))
      else loads_lines env lines)"

text \<open>
  \<open>StructuredDataProcessor._load_file\<close>: the value of the document, \<open>None\<close> when
  anything raises.
\<close>

definition load_file :: "'a sd_env_scheme \<Rightarrow> string \<Rightarrow> pyval" where
  "load_file env file_path =
     (case and_then (sd_read_text env file_path)
             (\<lambda>f. if lower (path_suffix env file_path) = ''.jsonl''
                   then and_then (loads_lines env (file_lines f)) (\<lambda>vs. Inr (PList vs))
                   else if lower (path_suffix env file_path) \<in> set [''.yaml'', ''.yml'']
                   then yaml_safe_load env f
                   else json_loads env f) of
        Inl e \<Rightarrow> PNone
      | Inr v \<Rightarrow> v)"

text \<open>\<open>StructuredDataProcessor._extract_schema\<close>\<close>

fun extract_schema :: "sd_config \<Rightarrow> int \<Rightarrow> pyval \<Rightarrow> pyval"
  and extract_schema_properties ::
    "sd_config \<Rightarrow> int \<Rightarrow> (pyval \<times> pyval) list \<Rightarrow> (pyval \<times> pyval) list
       \<Rightarrow> (pyval \<times> pyval) list" where
  "extract_schema cfg depth (PDict kvs) =
     (if depth > max_depth cfg then PDict [(PStr ''type'', PStr ''max_depth_exceeded'')]
      else PDict [(PStr ''type'', PStr ''object''),
                  (PStr ''properties'', PDict (extract_schema_properties cfg depth kvs []))])"
| "extract_schema cfg depth (PList xs) =
     (if depth > max_depth cfg then PDict [(PStr ''type'', PStr ''max_depth_exceeded'')]
      else (case xs of
              [] \<Rightarrow> PDict [(PStr ''type'', PStr ''array''), (PStr ''items'', PDict [])]
            | x # _ \<Rightarrow>
                PDict [(PStr ''type'', PStr ''array''),
                       (PStr ''length'', PInt (int (length xs))),
                       (PStr ''items'', extract_schema cfg (depth + 1) x)]))"
| "extract_schema cfg depth v =
     (if depth > max_depth cfg then PDict [(PStr ''type'', PStr ''max_depth_exceeded'')]
      else PDict [(PStr ''type'', PStr (type_name v))])"
| "extract_schema_properties cfg depth [] properties = properties"
| "extract_schema_properties cfg depth (kv # kvs) properties =
     extract_schema_properties cfg depth kvs
       (dict_set properties (fst kv) (extract_schema cfg (depth + 1) (snd kv)))"

text \<open>\<open>StructuredDataProcessor._extract_metadata\<close>\<close>

definition sd_extract_metadata ::
  "sd_config \<Rightarrow> 'a sd_env_scheme \<Rightarrow> pyval \<Rightarrow> string \<Rightarrow> (string \<times> pyval) list" where
  "sd_extract_metadata cfg env data file_path =
     (let metadata = [(''file_name'', PStr (path_name env file_path)),
                      (''file_path'', PStr file_path),
                      (''file_type'', PStr (lower (path_suffix env file_path))),
                      (''data_type'', PStr (type_name data))];
          m1 = (case data of
                  PDict kvs \<Rightarrow>
                    metadata @ [(''top_level_keys'', PList (map fst kvs)),
                                (''num_keys'', PInt (int (length kvs)))]
                | PList xs \<Rightarrow>
                    metadata @ [(''num_items'', PInt (int (length xs)))]
                      @ (case xs of
                           PDict kvs0 # _ \<Rightarrow> [(''item_keys'', PList (map fst kvs0))]
                         | _ \<Rightarrow> [])
                | _ \<Rightarrow> metadata)
      in m1 @ [(''schema'', extract_schema cfg 0 data)])"

text \<open>A value as a keyword of a chunk: a string, or \<open>None\<close> for anything else.\<close>

definition as_str :: "pyval \<Rightarrow> string option" where
  "as_str v = (case v of PStr s \<Rightarrow> Some s | _ \<Rightarrow> None)"

text \<open>\<open>', '.join(xs)\<close> raises \<open>TypeError\<close> unless every item is a string.\<close>

definition join_values :: "string \<Rightarrow> pyval list \<Rightarrow> error + string" where
  "join_values sep xs =
     (if None \<in> set (map as_str xs) then Inl TypeError
      else Inr (join sep (map str_scalar xs)))"

text \<open>
  \<open>StructuredDataProcessor._chunk_dict\<close>: the loop over the items, with the chunks
  built so far.
\<close>

fun chunk_dict_loop ::
  "string \<Rightarrow> string \<Rightarrow> int \<Rightarrow> (pyval \<times> pyval) list \<Rightarrow> chunk list \<Rightarrow> error + chunk list" where
  "chunk_dict_loop path file_name start_idx [] chunks = Inr chunks"
| "chunk_dict_loop path file_name start_idx (kv # kvs) chunks =
     (let key = fst kv; val = snd kv;
          current_path_text = (if path \<noteq> [] then path @ ''.'' @ str_scalar key
                               else str_scalar key);
          current_path = (if path \<noteq> [] then Some current_path_text else as_str key)
      in and_then
           (case val of
              PDict _ \<Rightarrow>
                and_then (json_dumps val) (\<lambda>value_str.
                  Chunk (''Path: '' @ current_path_text @ nl
                         @ ''Type: '' @ type_name val @ nl
                         @ ''Content:'' @ nl @ truncate_to 2000 value_str @ nl)
                    (start_idx + int (length chunks))
                    [Some file_name, as_str key, current_path, Some (type_name val)] [])
            | PList _ \<Rightarrow>
                and_then (json_dumps val) (\<lambda>value_str.
                  Chunk (''Path: '' @ current_path_text @ nl
                         @ ''Type: '' @ type_name val @ nl
                         @ ''Content:'' @ nl @ truncate_to 2000 value_str @ nl)
                    (start_idx + int (length chunks))
                    [Some file_name, as_str key, current_path, Some (type_name val)] [])
            | _ \<Rightarrow>
                Chunk (''Path: '' @ current_path_text @ nl
                       @ ''Value: '' @ str_scalar val @ nl)
                  (start_idx + int (length chunks))
                  [Some file_name, as_str key, current_path] [])
           (\<lambda>c. chunk_dict_loop path file_name start_idx kvs (chunks @ [c])))"

definition chunk_dict ::
  "(pyval \<times> pyval) list \<Rightarrow> string \<Rightarrow> string \<Rightarrow> int \<Rightarrow> error + chunk list" where
  "chunk_dict data path file_name start_idx =
     chunk_dict_loop path file_name start_idx data []"

text \<open>\<open>StructuredDataProcessor._chunk_list\<close>\<close>

fun chunk_list_loop ::
  "sd_config \<Rightarrow> pyval list \<Rightarrow> string \<Rightarrow> string \<Rightarrow> int \<Rightarrow> int list \<Rightarrow> chunk list
     \<Rightarrow> error + chunk list" where
  "chunk_list_loop cfg data path file_name start_idx [] chunks = Inr chunks"
| "chunk_list_loop cfg data path file_name start_idx (i # is) chunks =
     (let batch = slice data (nat i) (nat (i + max_array_items_per_chunk cfg))
      in and_then (json_dumps (PList batch)) (\<lambda>batch_str.
         and_then
           (Chunk (''Path: '' @ path @ nl
                   @ ''Array items ['' @ str_int i @ '':''
                   @ str_int (min (i + max_array_items_per_chunk cfg) (int (length data)))
                   @ '']'' @ nl
                   @ ''Content:'' @ nl @ truncate_to 2000 batch_str @ nl)
              (start_idx + int (length chunks))
              [Some file_name, Some path, Some ''array'',
               Some (''items_'' @ str_int i @ ''_'' @ str_int (i + int (length batch)))] [])
           (\<lambda>c. chunk_list_loop cfg data path file_name start_idx is (chunks @ [c]))))"

definition chunk_list ::
  "sd_config \<Rightarrow> pyval list \<Rightarrow> string \<Rightarrow> string \<Rightarrow> int \<Rightarrow> error + chunk list" where
  "chunk_list cfg data path file_name start_idx =
     and_then (py_range 0 (int (length data)) (max_array_items_per_chunk cfg))
       (\<lambda>is. chunk_list_loop cfg data path file_name start_idx is [])"

text \<open>\<open>StructuredDataProcessor._create_chunks_from_data\<close>\<close>

definition create_chunks_from_data ::
  "sd_config \<Rightarrow> pyval \<Rightarrow> string \<Rightarrow> string \<Rightarrow> error + chunk list" where
  "create_chunks_from_data cfg data file_name path =
     and_then
       (case data of
          PDict kvs \<Rightarrow>
            and_then (join_values '', '' (take 10 (map fst kvs))) (\<lambda>keys.
              Inr (''Top-level keys: '' @ keys @ nl
                   @ (if length kvs > 10
                      then ''... and '' @ str_int (int (length kvs) - 10) @ '' more keys'' @ nl
                      else [])))
        | PList xs \<Rightarrow> Inr (''Array with '' @ str_int (int (length xs)) @ '' items'' @ nl)
        | _ \<Rightarrow> Inr []) (\<lambda>structure_text.
     and_then (json_dumps data) (\<lambda>preview.
       let overview_text = ''File: '' @ file_name @ nl
                             @ ''Type: '' @ type_name data @ nl
                             @ structure_text
                             @ nl @ ''Preview:'' @ nl @ truncate_to 500 preview @ nl
       in and_then
            (Chunk overview_text 0 [Some file_name, Some ''overview'', Some ''structure''] [])
            (\<lambda>c. let chunks = [c] in
               and_then
                 (case data of
                    PDict kvs \<Rightarrow> chunk_dict kvs path file_name (int (length chunks))
                  | PList xs \<Rightarrow> chunk_list cfg xs path file_name (int (length chunks))
                  | _ \<Rightarrow> Inr [])
                 (\<lambda>more. Inr (chunks @ more)))))"

text \<open>\<open>StructuredDataProcessor._create_processed_context\<close>\<close>

definition sd_create_processed_context ::
  "raw_context \<Rightarrow> chunk list \<Rightarrow> (string \<times> pyval) list \<Rightarrow> error + processed_context option" where
  "sd_create_processed_context raw chunks metadata =
     (if chunks = [] then Inr None
      else
        and_then (item metadata ''file_name'') (\<lambda>title.
        and_then (item metadata ''data_type'') (\<lambda>data_type.
        and_then (item metadata ''file_type'') (\<lambda>file_type.
        and_then (case map_of metadata ''top_level_keys'' of
                    None \<Rightarrow> Inr []
                  | Some (PList ks) \<Rightarrow>
                      if None \<in> set (map as_str (take 10 ks)) then Inl ValueError
                      else Inr (map str_scalar (take 10 ks))
                  | Some _ \<Rightarrow> Inl TypeError) (\<lambda>top_keys.
          let summary =
                (if data_type = PStr ''dict'' then
                   ''Structured data with ''
                   @ str_scalar (get_default (map_of metadata ''num_keys'') (PInt 0))
                   @ '' top-level keys''
                 else if data_type = PStr ''list'' then
                   ''Array with ''
                   @ str_scalar (get_default (map_of metadata ''num_items'') (PInt 0))
                   @ '' items''
                 else ''Structured data of type '' @ str_scalar data_type);
              keywords = [str_scalar title, lstrip_dot (str_scalar file_type),
                          str_scalar data_type] @ top_keys
          in Inr (Some
               \<lparr>pc_id = object_id raw,
                pc_title = str_scalar title,
                pc_summary = summary,
                pc_keywords = keywords,
                pc_entities = [],
                pc_confidence = 95,
                pc_importance = 75,
                pc_source = source raw,
                pc_content_path = content_path raw,
                pc_additional_metadata =
                  metadata @ [(''processor'', PStr ''structured_data_processor'')],
                pc_chunks = chunks\<rparr>))))))"

text \<open>The body of the \<open>try\<close> of \<open>StructuredDataProcessor.process\<close>.\<close>

definition sd_process_body ::
  "sd_config \<Rightarrow> 'a sd_env_scheme \<Rightarrow> raw_context \<Rightarrow> error + processed_context list" where
  "sd_process_body cfg env context =
     (case content_path context of
        None \<Rightarrow> Inl TypeError
      | Some file_path \<Rightarrow>
          let data = load_file env file_path in
          if data = PNone then Inr []
          else
            let metadata = sd_extract_metadata cfg env data file_path in
            and_then (create_chunks_from_data cfg data (path_name env file_path) [])
              (\<lambda>chunks.
            and_then (sd_create_processed_context context chunks metadata)
              (\<lambda>processed_context.
                 case processed_context of
                   Some pc \<Rightarrow> Inr [pc]
                 | None \<Rightarrow> Inr [])))"

text \<open>\<open>StructuredDataProcessor.process\<close>\<close>

definition sd_process ::
  "sd_config \<Rightarrow> 'a sd_env_scheme \<Rightarrow> raw_context \<Rightarrow> error + processed_context list" where
  "sd_process cfg env context = isolate (sd_process_body cfg env context)"


section \<open>Excel processor\<close>

text \<open>
  A worksheet as \<open>openpyxl\<close> presents it: its extents, the pairs that
  \<open>sheet.tables.items()\<close> yields (\<open>None\<close> when the sheet has no attribute
  \<open>tables\<close>), each the name of a table and its range, a string, the cells that
  \<open>iter_rows\<close> walks through, which may raise, and the value of the cell at a row and a
  column.
\<close>

record cell =
  coordinate :: string
  comment :: "string option"

record sheet =
  max_row :: int
  max_column :: int
  dimensions :: string
  sheet_tables :: "(string \<times> string) list option"
  iter_rows :: "error + cell list list"
  cell_value :: "int \<Rightarrow> int \<Rightarrow> pyval"

record workbook =
  sheetnames :: "string list"
  get_sheet :: "string \<Rightarrow> sheet"

text \<open>
  A \<open>DataFrame\<close> as \<open>pandas\<close> presents it: the labels of the columns (as \<open>str\<close>
  gives them), the number of rows, the type of each column, the minimum, the maximum and
  the mean (two decimals) of each numeric column, all as text, and the text of
  \<open>df.iloc[i:j].to_string(index=False)\<close>.
\<close>

record dataframe =
  df_columns :: "string list"
  df_len :: nat
  df_dtypes :: "(string \<times> string) list"
  df_numeric :: "(string \<times> string \<times> string \<times> string) list"
  df_to_string :: "nat \<Rightarrow> nat \<Rightarrow> string"

text \<open>\<open>df.empty\<close>: no row or no column.\<close>

definition df_empty :: "dataframe \<Rightarrow> bool" where
  "df_empty df = (df_len df = 0 \<or> df_columns df = [])"

record excel_env = path_env +
  load_workbook :: "string \<Rightarrow> error + workbook"
  read_excel :: "string \<Rightarrow> string \<Rightarrow> error + dataframe"
  get_column_letter :: "int \<Rightarrow> error + string"

record excel_config =
  xc_enabled :: bool
  max_rows_per_chunk :: int
  xc_extract_formulas :: bool
  xc_extract_comments :: bool
  xc_detect_tables :: bool

text \<open>
  \<open>ExcelProcessor._detect_table_ranges\<close>.  The loop reads \<open>table.ref\<close> of the second
  component of each pair; that component is a string, which has no attribute \<open>ref\<close>, so
  the first turn of the loop raises \<open>AttributeError\<close>.
\<close>

fun table_entries :: "(string \<times> string) list \<Rightarrow> error + pyval list" where
  "table_entries [] = Inr []"
| "table_entries ((table_name, table) # items) = Inl AttributeError"

definition detect_table_ranges :: "sheet \<Rightarrow> error + pyval list" where
  "detect_table_ranges sh =
     (case sheet_tables sh of
        None \<Rightarrow> Inr []
      | Some items \<Rightarrow> table_entries items)"

text \<open>The comments of the cells that carry one, in the order of the walk.\<close>

definition collect_comments :: "cell list list \<Rightarrow> pyval list" where
  "collect_comments rows =
     map (\<lambda>c. PDict [(PStr ''cell'', PStr (coordinate c)),
                      (PStr ''comment'', PStr (the (comment c)))])
       (filter (\<lambda>c. comment c \<noteq> None) (concat rows))"

text \<open>
  \<open>ExcelProcessor._extract_sheet_metadata\<close>.  Neither the detection of the tables nor
  the walk over the cells is guarded: when one raises, the method raises.
\<close>

definition extract_sheet_metadata ::
  "excel_config \<Rightarrow> 'a excel_env_scheme \<Rightarrow> sheet \<Rightarrow> string \<Rightarrow> string
     \<Rightarrow> error + (string \<times> pyval) list" where
  "extract_sheet_metadata cfg env sh file_path sheet_name =
     (let metadata = [(''file_name'', PStr (path_name env file_path)),
                      (''file_path'', PStr file_path),
                      (''sheet_name'', PStr sheet_name),
                      (''max_row'', PInt (max_row sh)),
                      (''max_column'', PInt (max_column sh)),
                      (''dimensions'', PStr (dimensions sh))]
      in and_then
           (if xc_detect_tables cfg
            then and_then (detect_table_ranges sh)
                   (\<lambda>tables. Inr (metadata @ [(''tables'', PList tables)]))
            else Inr metadata) (\<lambda>m1.
         if xc_extract_comments cfg then
           and_then (iter_rows sh) (\<lambda>rows.
             let comments = collect_comments rows
             in if comments \<noteq> [] then Inr (m1 @ [(''comments'', PList comments)])
                else Inr m1)
         else Inr m1))"

text \<open>\<open>ExcelProcessor._extract_formulas_from_range\<close>: the two nested loops.\<close>

fun formulas_in_row ::
  "'a excel_env_scheme \<Rightarrow> sheet \<Rightarrow> int \<Rightarrow> int list \<Rightarrow> error + string list" where
  "formulas_in_row env sh row [] = Inr []"
| "formulas_in_row env sh row (col # cols) =
     (case cell_value sh row col of
        PStr v \<Rightarrow>
          if v \<noteq> [] \<and> take 1 v = ''='' then
            and_then (get_column_letter env col) (\<lambda>col_letter.
            and_then (formulas_in_row env sh row cols) (\<lambda>rest.
              Inr ((col_letter @ str_int row @ '': '' @ v) # rest)))
          else formulas_in_row env sh row cols
      | _ \<Rightarrow> formulas_in_row env sh row cols)"

fun formulas_in_rows ::
  "'a excel_env_scheme \<Rightarrow> sheet \<Rightarrow> int list \<Rightarrow> error + string list" where
  "formulas_in_rows env sh [] = Inr []"
| "formulas_in_rows env sh (row # rows) =
     and_then (formulas_in_row env sh row [1..max_column sh]) (\<lambda>fs.
     and_then (formulas_in_rows env sh rows) (\<lambda>rest. Inr (fs @ rest)))"

definition extract_formulas_from_range ::
  "'a excel_env_scheme \<Rightarrow> sheet \<Rightarrow> int \<Rightarrow> int \<Rightarrow> error + string list" where
  "extract_formulas_from_range env sh start_row end_row =
     formulas_in_rows env sh [start_row..min (end_row + 1) (max_row sh + 1) - 1]"

text \<open>
  The loop of \<open>_create_chunks_from_sheet\<close> over the batches of rows, with the chunks
  built so far.
\<close>

fun row_chunks_loop ::
  "excel_config \<Rightarrow> 'a excel_env_scheme \<Rightarrow> sheet \<Rightarrow> dataframe \<Rightarrow> string \<Rightarrow> int list
     \<Rightarrow> chunk list \<Rightarrow> error + chunk list" where
  "row_chunks_loop cfg env sh df sheet_name [] chunks = Inr chunks"
| "row_chunks_loop cfg env sh df sheet_name (i # is) chunks =
     (let stop = min (nat (i + max_rows_per_chunk cfg)) (df_len df);
          n = int stop - i;
          chunk_text = ''Sheet: '' @ sheet_name @ '' (Rows '' @ str_int (i + 1) @ '' to ''
                         @ str_int (i + n) @ '')'' @ nl
                         @ df_to_string df (nat i) stop @ nl
      in and_then
           (if xc_extract_formulas cfg then
              and_then (extract_formulas_from_range env sh (i + 2) (i + n + 1))
                (\<lambda>formulas.
                   if formulas \<noteq> []
                   then Inr (chunk_text @ nl @ ''Formulas:'' @ nl @ join nl formulas)
                   else Inr chunk_text)
            else Inr chunk_text) (\<lambda>txt.
         and_then
           (Chunk txt (int (length chunks))
              (map Some ([sheet_name,
                          ''rows_'' @ str_int (i + 1) @ ''_to_'' @ str_int (i + n)]
                         @ take 5 (df_columns df))) [])
           (\<lambda>c. row_chunks_loop cfg env sh df sheet_name is (chunks @ [c]))))"

text \<open>\<open>ExcelProcessor._create_chunks_from_sheet\<close>\<close>

definition create_chunks_from_sheet ::
  "excel_config \<Rightarrow> 'a excel_env_scheme \<Rightarrow> sheet \<Rightarrow> dataframe \<Rightarrow> string
     \<Rightarrow> error + chunk list" where
  "create_chunks_from_sheet cfg env sh df sheet_name =
     and_then
       (if \<not> df_empty df then
          let header_text =
                ''Sheet: '' @ sheet_name @ nl
                @ ''Columns: '' @ join '', '' (df_columns df) @ nl
                @ ''Rows: '' @ str_int (int (df_len df)) @ '', Columns: ''
                @ str_int (int (length (df_columns df))) @ nl
                @ nl @ ''Data Types:'' @ nl
                @ join nl (map (\<lambda>(col, dtype). col @ '': '' @ dtype) (df_dtypes df)) @ nl
                @ (if length (df_numeric df) > 0 then
                     nl @ ''Numeric Summary:'' @ nl
                     @ concat (map (\<lambda>(col, mn, mx, mean).
                                 col @ '': min='' @ mn @ '', max='' @ mx @ '', mean='' @ mean @ nl)
                               (df_numeric df))
                   else [])
          in and_then
               (Chunk header_text 0 [Some sheet_name, Some ''header'', Some ''metadata''] [])
               (\<lambda>c. Inr [c])
        else Inr []) (\<lambda>chunks.
     and_then (py_range 0 (int (df_len df)) (max_rows_per_chunk cfg)) (\<lambda>is.
       row_chunks_loop cfg env sh df sheet_name is chunks))"

text \<open>The names of the tables recorded in the metadata.\<close>

fun table_names :: "pyval \<Rightarrow> error + string list" where
  "table_names (PList []) = Inr []"
| "table_names (PList (PDict kvs # ts)) =
     (case map_of kvs (PStr ''name'') of
        Some (PStr n) \<Rightarrow> and_then (table_names (PList ts)) (\<lambda>ns. Inr (n # ns))
      | Some _ \<Rightarrow> Inl ValueError
      | None \<Rightarrow> Inl KeyError)"
| "table_names _ = Inl TypeError"

text \<open>\<open>ExcelProcessor._create_processed_context\<close>\<close>

definition excel_create_processed_context ::
  "raw_context \<Rightarrow> chunk list \<Rightarrow> (string \<times> pyval) list \<Rightarrow> string
     \<Rightarrow> error + processed_context option" where
  "excel_create_processed_context raw chunks metadata sheet_name =
     (if chunks = [] then Inr None
      else
        and_then (item metadata ''file_name'') (\<lambda>file_name.
        and_then (item metadata ''max_row'') (\<lambda>mr.
        and_then (item metadata ''max_column'') (\<lambda>mc.
        and_then (case map_of metadata ''tables'' of
                    None \<Rightarrow> Inr [] | Some ts \<Rightarrow> table_names ts) (\<lambda>tables.
          let title = str_scalar file_name @ '' - '' @ sheet_name;
              summary = ''Excel sheet '' @ [CHR 0x27] @ sheet_name @ [CHR 0x27] @ '' with ''
                          @ str_scalar mr @ '' rows and '' @ str_scalar mc @ '' columns'';
              keywords = [sheet_name, str_scalar file_name, ''excel'', ''spreadsheet'']
                           @ tables
          in Inr (Some
               \<lparr>pc_id = object_id raw @ ''_'' @ sheet_name,
                pc_title = title,
                pc_summary = summary,
                pc_keywords = keywords,
                pc_entities = [],
                pc_confidence = 90,
                pc_importance = 70,
                pc_source = source raw,
                pc_content_path = content_path raw,
                pc_additional_metadata =
                  dict_set (dict_set metadata ''sheet_name'' (PStr sheet_name))
                    ''processor'' (PStr ''excel_processor''),
                pc_chunks = chunks\<rparr>))))))"

text \<open>
  The loop of \<open>ExcelProcessor.process\<close> over the names of the sheets, with the contexts
  collected so far.  An exception in any step for any sheet leaves the loop.
\<close>

fun sheets_loop ::
  "excel_config \<Rightarrow> 'a excel_env_scheme \<Rightarrow> raw_context \<Rightarrow> string \<Rightarrow> workbook \<Rightarrow> string list
     \<Rightarrow> processed_context list \<Rightarrow> error + processed_context list" where
  "sheets_loop cfg env context file_path wb [] processed_contexts = Inr processed_contexts"
| "sheets_loop cfg env context file_path wb (sheet_name # names) processed_contexts =
     (let sh = get_sheet wb sheet_name in
      and_then (extract_sheet_metadata cfg env sh file_path sheet_name) (\<lambda>sheet_metadata.
      and_then (read_excel env file_path sheet_name) (\<lambda>df.
      and_then (create_chunks_from_sheet cfg env sh df sheet_name) (\<lambda>chunks.
      and_then (excel_create_processed_context context chunks sheet_metadata sheet_name)
        (\<lambda>processed_context.
           sheets_loop cfg env context file_path wb names
             (case processed_context of
                Some pc \<Rightarrow> processed_contexts @ [pc]
              | None \<Rightarrow> processed_contexts))))))"

text \<open>The body of the \<open>try\<close> of \<open>ExcelProcessor.process\<close>.\<close>

definition excel_process_body ::
  "excel_config \<Rightarrow> 'a excel_env_scheme \<Rightarrow> raw_context \<Rightarrow> error + processed_context list" where
  "excel_process_body cfg env context =
     (case content_path context of
        None \<Rightarrow> Inl TypeError
      | Some file_path \<Rightarrow>
          and_then (load_workbook env file_path) (\<lambda>wb.
            sheets_loop cfg env context file_path wb (sheetnames wb) []))"

text \<open>\<open>ExcelProcessor.process\<close>\<close>

definition excel_process ::
  "excel_config \<Rightarrow> 'a excel_env_scheme \<Rightarrow> raw_context \<Rightarrow> error + processed_context list" where
  "excel_process cfg env context = isolate (excel_process_body cfg env context)"

text \<open>A sheet gives at least one chunk: a header, or a first batch of rows.\<close>

definition sheet_has_chunks :: "excel_config \<Rightarrow> dataframe \<Rightarrow> bool" where
  "sheet_has_chunks cfg df = (\<not> df_empty df \<or> (0 < df_len df \<and> 0 < max_rows_per_chunk cfg))"


text \<open>A sheet is read and gives at least one chunk.\<close>

definition sheet_kept :: "excel_config \<Rightarrow> 'a excel_env_scheme \<Rightarrow> string \<Rightarrow> string \<Rightarrow> bool" where
  "sheet_kept cfg env file_path sheet_name =
     (case read_excel env file_path sheet_name of
        Inl e \<Rightarrow> False
      | Inr df \<Rightarrow> sheet_has_chunks cfg df)"


text \<open>The chunk indexes of a list count up from \<open>s\<close>.\<close>

definition indexed_from :: "int \<Rightarrow> chunk list \<Rightarrow> bool" where
  "indexed_from s cs = (map chunk_index cs = map (\<lambda>j. s + int j) [0..<length cs])"


section \<open>Properties of the auto-tagging service\<close>

lemma lstrip_ws_fixed: "s = [] \<or> \<not> py_isspace (hd s) \<Longrightarrow> lstrip_ws s = s"
  by (auto simp: lstrip_ws_def dropWhile_eq_self_iff)

lemma rstrip_ws_prefix: "\<exists>t. s = rstrip_ws s @ t"
proof -
  have "rev s = takeWhile py_isspace (rev s) @ dropWhile py_isspace (rev s)"
    by simp
  then have "s = rev (dropWhile py_isspace (rev s)) @ rev (takeWhile py_isspace (rev s))"
    by (metis rev_append rev_rev_ident)
  then show ?thesis
    unfolding rstrip_ws_def by blast
qed

lemma rstrip_ws_idem: "rstrip_ws (rstrip_ws s) = rstrip_ws s"
  by (simp add: rstrip_ws_def)

lemma strip_idem: "strip (strip s) = strip s"
proof -
  let ?a = "lstrip_ws s"
  obtain t where t: "?a = rstrip_ws ?a @ t"
    using rstrip_ws_prefix by blast
  have a: "?a = [] \<or> \<not> py_isspace (hd ?a)"
    unfolding lstrip_ws_def by (metis hd_dropWhile)
  have "rstrip_ws ?a = [] \<or> \<not> py_isspace (hd (rstrip_ws ?a))"
  proof (cases "rstrip_ws ?a = []")
    case True
    then show ?thesis by simp
  next
    case False
    then have "hd ?a = hd (rstrip_ws ?a)"
      using t by (metis hd_append2)
    moreover have "?a \<noteq> []"
      using False t by (metis append_is_Nil_conv)
    ultimately show ?thesis
      using a by simp
  qed
  then have "lstrip_ws (rstrip_ws ?a) = rstrip_ws ?a"
    by (rule lstrip_ws_fixed)
  then show ?thesis
    by (simp add: strip_def rstrip_ws_idem)
qed

lemma collect_cleaned_acc:
  "collect_cleaned ts acc = acc @ collect_cleaned ts []"
proof (induction ts arbitrary: acc)
  case (Cons t ts)
  show ?case
  proof (cases t)
    case (PStr s)
    then show ?thesis
      using Cons [of "acc @ [strip s]"] Cons [of "[strip s]"] Cons [of acc]
      by (simp add: Let_def)
  qed (use Cons [of acc] in simp_all)
qed simp

lemma collect_cleaned_ok: "list_all tag_ok (collect_cleaned ts [])"
proof (induction ts)
  case (Cons t ts)
  show ?case
  proof (cases t)
    case (PStr s)
    then show ?thesis
      using Cons collect_cleaned_acc [of ts "[strip s]"]
      by (auto simp: Let_def tag_ok_def strip_idem)
  qed (use Cons in simp_all)
qed simp

lemma collect_cleaned_strs:
  "list_all tag_ok ys \<Longrightarrow> collect_cleaned (map PStr ys) acc = acc @ ys"
  by (induction ys arbitrary: acc) (auto simp: tag_ok_def Let_def)

lemma unique_loop_acc:
  "unique_loop xs seen acc = acc @ unique_loop xs seen []"
proof (induction xs arbitrary: seen acc)
  case (Cons x xs)
  show ?case
    using Cons [of "insert (lower x) seen" "acc @ [x]"]
      Cons [of "insert (lower x) seen" "[x]"] Cons [of seen acc]
    by (simp add: Let_def)
qed simp

lemma unique_loop_Cons:
  "unique_loop (x # xs) seen [] =
     (if lower x \<in> seen then unique_loop xs seen []
      else x # unique_loop xs (insert (lower x) seen) [])"
  using unique_loop_acc [of xs "insert (lower x) seen" "[x]"]
  by (simp add: Let_def)

lemma unique_loop_subset: "set (unique_loop xs seen []) \<subseteq> set xs"
proof (induction xs arbitrary: seen)
  case (Cons x xs)
  show ?case
    using Cons [of seen] Cons [of "insert (lower x) seen"]
    by (auto simp: unique_loop_Cons simp del: unique_loop.simps)
qed simp

lemma unique_loop_fresh:
  "lower ` set (unique_loop xs seen []) \<inter> seen = {}"
proof (induction xs arbitrary: seen)
  case (Cons x xs)
  show ?case
  proof (cases "lower x \<in> seen")
    case True
    then show ?thesis
      using Cons [of seen] by (simp add: unique_loop_Cons del: unique_loop.simps)
  next
    case False
    then show ?thesis
      using Cons [of "insert (lower x) seen"] by (auto simp: unique_loop_Cons simp del: unique_loop.simps)
  qed
qed simp

lemma unique_loop_distinct: "distinct (map lower (unique_loop xs seen []))"
proof (induction xs arbitrary: seen)
  case (Cons x xs)
  show ?case
  proof (cases "lower x \<in> seen")
    case True
    then show ?thesis
      using Cons [of seen] by (simp add: unique_loop_Cons del: unique_loop.simps)
  next
    case False
    then show ?thesis
      using Cons [of "insert (lower x) seen"]
        unique_loop_fresh [of xs "insert (lower x) seen"]
      by (auto simp: unique_loop_Cons simp del: unique_loop.simps)
  qed
qed simp

lemma unique_loop_fixed:
  "distinct (map lower ys) \<Longrightarrow> lower ` set ys \<inter> seen = {}
     \<Longrightarrow> unique_loop ys seen [] = ys"
proof (induction ys arbitrary: seen)
  case (Cons y ys)
  from Cons.prems have "lower y \<notin> seen"
    by auto
  moreover have "unique_loop ys (insert (lower y) seen) [] = ys"
    using Cons.prems by (intro Cons.IH) auto
  ultimately show ?case
    by (simp add: unique_loop_Cons del: unique_loop.simps)
qed simp

lemma clean_tags_ok: "list_all tag_ok (clean_tags v)"
proof (cases v)
  case (PList ts)
  have "set (take 10 (unique_loop (collect_cleaned ts []) {} []))
          \<subseteq> set (collect_cleaned ts [])"
    using unique_loop_subset set_take_subset by fast
  then show ?thesis
    using collect_cleaned_ok [of ts] PList
    by (auto simp: clean_tags_def list_all_iff)
qed (simp_all add: clean_tags_def)

lemma clean_tags_distinct: "distinct (map lower (clean_tags v))"
proof (cases v)
  case (PList ts)
  then show ?thesis
    using unique_loop_distinct [of "collect_cleaned ts []" "{}"]
    by (simp add: clean_tags_def take_map [symmetric])
qed (simp_all add: clean_tags_def)

text \<open>
  C8.  Tag cleaning is idempotent: cleaning the list that \<open>_clean_tags\<close> returned gives
  that list again.  The input may be any value; the claim's inputs, lists of strings, are
  the values \<open>PList (map PStr x)\<close>.
\<close>

theorem clean_tags_idempotent:
  "clean_tags (PList (map PStr (clean_tags v))) = clean_tags v"
proof -
  let ?r = "clean_tags v"
  have "collect_cleaned (map PStr ?r) [] = ?r"
    using collect_cleaned_strs [OF clean_tags_ok, of v "[]"] by simp
  moreover have "unique_loop ?r {} [] = ?r"
    using clean_tags_distinct by (intro unique_loop_fixed) auto
  moreover have "length ?r \<le> 10"
    by (cases v) (simp_all add: clean_tags_def)
  ultimately show ?thesis
    by (simp add: clean_tags_def)
qed

theorem clean_tags_idempotent_witness:
  "clean_tags (PList [PStr '' Foo '', PStr ''foo'', PInt 3, PStr ''Bar'']) = [''Foo'', ''Bar'']
   \<and> clean_tags (PList (map PStr [''Foo'', ''Bar''])) = [''Foo'', ''Bar'']"
proof -
  have e: "clean_tags (PList [PStr '' Foo '', PStr ''foo'', PInt 3, PStr ''Bar''])
             = [''Foo'', ''Bar'']"
    by code_simp
  show ?thesis
    using clean_tags_idempotent [of "PList [PStr '' Foo '', PStr ''foo'', PInt 3, PStr ''Bar'']"]
    unfolding e by simp
qed


section \<open>Properties of the enhanced search service\<close>

lemma set_slice_to: "set (slice_to xs k) \<subseteq> set xs"
  by (auto simp: slice_to_def dest: in_set_takeD)

lemma length_slice_to: "0 \<le> k \<Longrightarrow> int (length (slice_to xs k)) \<le> k"
  by (simp add: slice_to_def)

text \<open>
  C1.  \<open>search\<close> compares the threshold with the distance of a record, not with its
  relevance score: a record at distance 0.95 passes \<open>min_relevance=0.9\<close> and is returned
  with the relevance score 0.05.
\<close>

theorem search_min_relevance_far_record:
  "map relevance_score
     (search
        \<lparr>search_context = (\<lambda>q k c. Inr [\<lparr>rid = Some ''x'', distance = Some (95 / 100),
             r_metadata = None, relevance_score = None, importance = None\<rparr>]),
         fromisoformat = (\<lambda>s. Inl ValueError), now = DT False 0\<rparr>
        ((search_defaults ''q'')\<lparr>sa_top_k := 10, sa_min_relevance := 9 / 10\<rparr>))
     = [Some (5 / 100)]
   \<and> (5 / 100 :: real) < 9 / 10"
  by (simp add: search_def search_defaults_def filter_result_def get_default_def
      get_metadata_def truthy_def date_filter_def sort_results_def sort_desc_def
      slice_to_def List.map_filter_simps)

text \<open>
  C6 as stated fails for a negative \<open>top_k\<close>: no list has at most \<open>-1\<close> elements, and
  the two slices \<open>[:-1]\<close> leave one of three matching records.
\<close>

theorem search_by_tags_negative_top_k:
  "map rid (search_by_tags
        \<lparr>search_context = (\<lambda>q k c. Inr
           [\<lparr>rid = Some ''x'', distance = Some (1 / 10),
              r_metadata = Some (empty_metadata\<lparr>md_tags := Some [''a'']\<rparr>),
              relevance_score = None, importance = None\<rparr>,
            \<lparr>rid = Some ''y'', distance = Some (2 / 10),
              r_metadata = Some (empty_metadata\<lparr>md_tags := Some [''a'']\<rparr>),
              relevance_score = None, importance = None\<rparr>,
            \<lparr>rid = Some ''z'', distance = Some (3 / 10),
              r_metadata = Some (empty_metadata\<lparr>md_tags := Some [''a'']\<rparr>),
              relevance_score = None, importance = None\<rparr>]),
         fromisoformat = (\<lambda>s. Inl ValueError), now = DT False 0\<rparr>
        [''a''] (- 1) True) = [Some ''x'']
   \<and> \<not> int (length (search_by_tags
        \<lparr>search_context = (\<lambda>q k c. Inr
           [\<lparr>rid = Some ''x'', distance = Some (1 / 10),
              r_metadata = Some (empty_metadata\<lparr>md_tags := Some [''a'']\<rparr>),
              relevance_score = None, importance = None\<rparr>,
            \<lparr>rid = Some ''y'', distance = Some (2 / 10),
              r_metadata = Some (empty_metadata\<lparr>md_tags := Some [''a'']\<rparr>),
              relevance_score = None, importance = None\<rparr>,
            \<lparr>rid = Some ''z'', distance = Some (3 / 10),
              r_metadata = Some (empty_metadata\<lparr>md_tags := Some [''a'']\<rparr>),
              relevance_score = None, importance = None\<rparr>]),
         fromisoformat = (\<lambda>s. Inl ValueError), now = DT False 0\<rparr>
        [''a''] (- 1) True)) \<le> - 1"
proof -
  have "map rid (search_by_tags
        \<lparr>search_context = (\<lambda>q k c. Inr
           [\<lparr>rid = Some ''x'', distance = Some (1 / 10),
              r_metadata = Some (empty_metadata\<lparr>md_tags := Some [''a'']\<rparr>),
              relevance_score = None, importance = None\<rparr>,
            \<lparr>rid = Some ''y'', distance = Some (2 / 10),
              r_metadata = Some (empty_metadata\<lparr>md_tags := Some [''a'']\<rparr>),
              relevance_score = None, importance = None\<rparr>,
            \<lparr>rid = Some ''z'', distance = Some (3 / 10),
              r_metadata = Some (empty_metadata\<lparr>md_tags := Some [''a'']\<rparr>),
              relevance_score = None, importance = None\<rparr>]),
         fromisoformat = (\<lambda>s. Inl ValueError), now = DT False 0\<rparr>
        [''a''] (- 1) True) = [Some ''x'']"
    by (simp add: search_by_tags_def search_def search_defaults_def filter_result_def
        get_default_def get_metadata_def truthy_def date_filter_def sort_results_def
        sort_desc_def slice_to_def empty_metadata_def Let_def)
  moreover have "\<not> int (length (search_by_tags
        \<lparr>search_context = (\<lambda>q k c. Inr
           [\<lparr>rid = Some ''x'', distance = Some (1 / 10),
              r_metadata = Some (empty_metadata\<lparr>md_tags := Some [''a'']\<rparr>),
              relevance_score = None, importance = None\<rparr>,
            \<lparr>rid = Some ''y'', distance = Some (2 / 10),
              r_metadata = Some (empty_metadata\<lparr>md_tags := Some [''a'']\<rparr>),
              relevance_score = None, importance = None\<rparr>,
            \<lparr>rid = Some ''z'', distance = Some (3 / 10),
              r_metadata = Some (empty_metadata\<lparr>md_tags := Some [''a'']\<rparr>),
              relevance_score = None, importance = None\<rparr>]),
         fromisoformat = (\<lambda>s. Inl ValueError), now = DT False 0\<rparr>
        [''a''] (- 1) True)) \<le> - 1"
    by simp
  ultimately show ?thesis
    by (rule conjI)
qed

text \<open>
  C6 (amended).  With \<open>match_all=True\<close> every record that \<open>search_by_tags\<close> returns
  stores all the requested tags, for every \<open>top_k\<close>; and when \<open>top_k\<close> is not negative
  at most \<open>top_k\<close> records are returned.
\<close>

theorem search_by_tags_match_all:
  "list_all (\<lambda>r. set tags \<subseteq> set (get_default (md_tags (get_metadata r)) []))
     (search_by_tags env tags top_k True)
   \<and> (0 \<le> top_k \<longrightarrow> int (length (search_by_tags env tags top_k True)) \<le> top_k)"
proof -
  define P where "P = (\<lambda>result::result. list_all
              (\<lambda>tag. tag \<in> set (get_default (md_tags (get_metadata result)) [])) tags)"
  obtain rs where rs: "search_by_tags env tags top_k True = slice_to (filter P rs) top_k"
    by (simp add: search_by_tags_def Let_def P_def)
  have P: "\<And>r. P r = (set tags \<subseteq> set (get_default (md_tags (get_metadata r)) []))"
    unfolding P_def list_all_iff by blast
  have "set (slice_to (filter P rs) top_k) \<subseteq> set (filter P rs)"
    by (rule set_slice_to)
  then have "\<forall>r \<in> set (slice_to (filter P rs) top_k). P r"
    by auto
  then have "list_all P (slice_to (filter P rs) top_k)"
    unfolding list_all_iff .
  then have "list_all (\<lambda>r. set tags \<subseteq> set (get_default (md_tags (get_metadata r)) []))
               (slice_to (filter P rs) top_k)"
    unfolding P .
  moreover have "0 \<le> top_k \<longrightarrow> int (length (slice_to (filter P rs) top_k)) \<le> top_k"
    by (simp add: length_slice_to)
  ultimately show ?thesis
    unfolding rs by (rule conjI)
qed

theorem search_by_tags_match_all_witness:
  "list_all (\<lambda>r. set [''a'', ''b''] \<subseteq> set (get_default (md_tags (get_metadata r)) []))
     (search_by_tags
        \<lparr>search_context = (\<lambda>q k c. Inr
           [\<lparr>rid = Some ''x'', distance = Some (1 / 10),
              r_metadata = Some (empty_metadata\<lparr>md_tags := Some [''b'', ''c'', ''a'']\<rparr>),
              relevance_score = None, importance = None\<rparr>,
            \<lparr>rid = Some ''y'', distance = Some (2 / 10),
              r_metadata = Some (empty_metadata\<lparr>md_tags := Some [''a'']\<rparr>),
              relevance_score = None, importance = None\<rparr>]),
         fromisoformat = (\<lambda>s. Inl ValueError), now = DT False 0\<rparr>
        [''a'', ''b''] 1 True)
   \<and> (0::int) \<le> 1
   \<and> int (length (search_by_tags
        \<lparr>search_context = (\<lambda>q k c. Inr
           [\<lparr>rid = Some ''x'', distance = Some (1 / 10),
              r_metadata = Some (empty_metadata\<lparr>md_tags := Some [''b'', ''c'', ''a'']\<rparr>),
              relevance_score = None, importance = None\<rparr>,
            \<lparr>rid = Some ''y'', distance = Some (2 / 10),
              r_metadata = Some (empty_metadata\<lparr>md_tags := Some [''a'']\<rparr>),
              relevance_score = None, importance = None\<rparr>]),
         fromisoformat = (\<lambda>s. Inl ValueError), now = DT False 0\<rparr>
        [''a'', ''b''] 1 True)) \<le> 1
   \<and> map rid (search_by_tags
        \<lparr>search_context = (\<lambda>q k c. Inr
           [\<lparr>rid = Some ''x'', distance = Some (1 / 10),
              r_metadata = Some (empty_metadata\<lparr>md_tags := Some [''b'', ''c'', ''a'']\<rparr>),
              relevance_score = None, importance = None\<rparr>,
            \<lparr>rid = Some ''y'', distance = Some (2 / 10),
              r_metadata = Some (empty_metadata\<lparr>md_tags := Some [''a'']\<rparr>),
              relevance_score = None, importance = None\<rparr>]),
         fromisoformat = (\<lambda>s. Inl ValueError), now = DT False 0\<rparr>
        [''a'', ''b''] 1 True) = [Some ''x'']"
proof -
  let ?env = "\<lparr>search_context = (\<lambda>q k c. Inr
           [\<lparr>rid = Some ''x'', distance = Some (1 / 10),
              r_metadata = Some (empty_metadata\<lparr>md_tags := Some [''b'', ''c'', ''a'']\<rparr>),
              relevance_score = None, importance = None\<rparr>,
            \<lparr>rid = Some ''y'', distance = Some (2 / 10),
              r_metadata = Some (empty_metadata\<lparr>md_tags := Some [''a'']\<rparr>),
              relevance_score = None, importance = None\<rparr>]),
         fromisoformat = (\<lambda>s. Inl ValueError), now = DT False 0\<rparr>"
  let ?rs = "search_by_tags ?env [''a'', ''b''] 1 True"
  have e: "map rid ?rs = [Some ''x'']"
    by (simp add: search_by_tags_def search_def search_defaults_def filter_result_def
        get_default_def get_metadata_def truthy_def date_filter_def sort_results_def
        sort_desc_def slice_to_def empty_metadata_def Let_def)
  note t = search_by_tags_match_all [of "[''a'', ''b'']" ?env 1]
  from t have a: "list_all
      (\<lambda>r. set [''a'', ''b''] \<subseteq> set (get_default (md_tags (get_metadata r)) [])) ?rs"
    by (rule conjunct1)
  from t have "(0::int) \<le> 1 \<longrightarrow> int (length ?rs) \<le> 1"
    by (rule conjunct2)
  then have b: "int (length ?rs) \<le> 1"
    by (rule mp) simp
  have c: "(0::int) \<le> 1"
    by simp
  show ?thesis
    using a c b e by (intro conjI)
qed







section \<open>Steps that may raise\<close>

lemma and_then_Inr:
  "and_then m f = Inr r \<Longrightarrow> \<exists>x. m = Inr x \<and> f x = Inr r"
  by (cases m) (simp_all add: and_then_def)

lemma and_then_Inl: "m = Inl e \<Longrightarrow> and_then m f = Inl e"
  by (simp add: and_then_def)


lemma isolate_Inl: "b = Inl e \<Longrightarrow> isolate b = Inr []"
  by (simp add: isolate_def)


section \<open>Properties of the code processor\<close>

lemma Chunk_index: "Chunk t i k e = Inr c \<Longrightarrow> chunk_index c = i"
  by (auto simp: Chunk_def split: if_splits)

lemma indexed_from_Nil: "indexed_from s []"
  by (simp add: indexed_from_def)

lemma indexed_from_snoc:
  "indexed_from s cs \<Longrightarrow> chunk_index c = s + int (length cs) \<Longrightarrow> indexed_from s (cs @ [c])"
  by (simp add: indexed_from_def)

lemma indexed_from_Cons:
  "chunk_index c = s \<Longrightarrow> indexed_from (s + 1) cs \<Longrightarrow> indexed_from s (c # cs)"
  by (simp add: indexed_from_def map_upt_Suc del: upt_Suc)

lemma chunk_by_lines_loop_indexed:
  "indexed_from s acc \<Longrightarrow> chunk_by_lines_loop cfg lines fn s is acc = Inr r
     \<Longrightarrow> indexed_from s r"
proof (induction "is" arbitrary: acc)
  case Nil
  then show ?case by simp
next
  case (Cons i "is")
  from Cons.prems(2) obtain c where
    c: "Chunk (''Lines '' @ str_int (i + 1) @ ''-''
          @ str_int (i + int (length (slice lines (nat i) (nat (i + max_lines_per_chunk cfg)))))
          @ nl @ nl @ join nl (slice lines (nat i) (nat (i + max_lines_per_chunk cfg))))
        (s + int (length acc))
        [Some fn, Some (''lines_'' @ str_int (i + 1) @ ''_''
          @ str_int (i + int (length (slice lines (nat i) (nat (i + max_lines_per_chunk cfg))))))]
        [] = Inr c"
    and r: "chunk_by_lines_loop cfg lines fn s is (acc @ [c]) = Inr r"
    by (auto simp: Let_def dest!: and_then_Inr)
  have "indexed_from s (acc @ [c])"
    using Cons.prems(1) Chunk_index [OF c] by (rule indexed_from_snoc)
  then show ?case
    using r by (rule Cons.IH)
qed

lemma chunk_by_lines_indexed:
  "chunk_by_lines cfg lines fn s = Inr r \<Longrightarrow> indexed_from s r"
  unfolding chunk_by_lines_def
  by (auto dest!: and_then_Inr intro: chunk_by_lines_loop_indexed [OF indexed_from_Nil])

lemma element_chunks_loop_indexed:
  "indexed_from 1 acc \<Longrightarrow> element_chunks_loop lines lang fn els acc = Inr r
     \<Longrightarrow> indexed_from 1 r"
proof (induction els arbitrary: acc)
  case Nil
  then show ?case by simp
next
  case (Cons el els)
  from Cons.prems(2) obtain c t k e where
    c: "Chunk t (int (length acc) + 1) k e = Inr c"
    and r: "element_chunks_loop lines lang fn els (acc @ [c]) = Inr r"
    by (auto simp: Let_def dest!: and_then_Inr)
  have "chunk_index c = 1 + int (length acc)"
    using Chunk_index [OF c] by simp
  with Cons.prems(1) have "indexed_from 1 (acc @ [c])"
    by (rule indexed_from_snoc)
  then show ?case
    using r by (rule Cons.IH)
qed

lemma chunk_by_syntax_indexed:
  "chunk_by_syntax cfg env code lang fn = Inr r \<Longrightarrow> indexed_from 1 r"
  unfolding chunk_by_syntax_def Let_def
  by (auto dest!: and_then_Inr split: if_splits
      intro: chunk_by_lines_indexed element_chunks_loop_indexed [OF indexed_from_Nil])

lemma create_chunks_from_code_indexed:
  assumes "create_chunks_from_code cfg env code lang fn = Inr r"
  shows "indexed_from 0 r \<and> r \<noteq> []"
proof -
  from assms obtain c t k e more where
    c: "Chunk t 0 k e = Inr c"
    and more: "(if map_of LANGUAGE_PATTERNS lang \<noteq> None
                then chunk_by_syntax cfg env code lang fn
                else chunk_by_lines cfg (split_lines code) fn (int (length [c]))) = Inr more"
    and r: "r = c # more"
    unfolding create_chunks_from_code_def Let_def
    by (auto dest!: and_then_Inr)
  have "indexed_from (0 + 1) more"
    using more chunk_by_syntax_indexed chunk_by_lines_indexed
    by (auto split: if_splits)
  with Chunk_index [OF c] have "indexed_from 0 (c # more)"
    by (rule indexed_from_Cons)
  then show ?thesis
    using r by simp
qed

lemma code_process_chunks:
  assumes "code_process cfg env context = Inr pcs" and "pc \<in> set pcs"
  shows "\<exists>code lang fn. create_chunks_from_code cfg env code lang fn = Inr (pc_chunks pc)"
proof -
  from assms have body: "code_process_body cfg env context = Inr pcs"
    by (auto simp: code_process_def isolate_def split: sum.splits)
  then obtain p where p: "content_path context = Some p"
    by (auto simp: code_process_body_def split: option.splits)
  from body p obtain code chunks opc where
    ch: "create_chunks_from_code cfg env code (detect_language (path_suffix env p))
           (path_name env p) = Inr chunks"
    and opc: "code_create_processed_context context chunks
           (extract_code_metadata cfg env code (detect_language (path_suffix env p)) p)
           (detect_language (path_suffix env p)) = Inr opc"
    and pcs: "pcs = (case opc of Some pc \<Rightarrow> [pc] | None \<Rightarrow> [])"
    unfolding code_process_body_def Let_def
    by (auto dest!: and_then_Inr split: option.splits)
  from pcs assms(2) have "opc = Some pc"
    by (auto split: option.splits)
  with opc have "pc_chunks pc = chunks"
    unfolding code_create_processed_context_def Let_def
    by (auto dest!: and_then_Inr split: if_splits)
  with ch show ?thesis
    by blast
qed

text \<open>
  C4.  Every context that \<open>CodeProcessor.process\<close> returns has at least one chunk, and
  the chunk indexes are 0, 1, ..., N-1 in list order: whether the chunks after the overview
  come from the syntax elements, from the line windows that replace them when no element
  matches, or from the line windows of a language without patterns.
\<close>

theorem code_chunk_index_dense:
  assumes "code_process cfg env context = Inr pcs" and "pc \<in> set pcs"
  shows "map chunk_index (pc_chunks pc) = map int [0..<length (pc_chunks pc)]
         \<and> pc_chunks pc \<noteq> []"
proof -
  obtain code lang fn where
    "create_chunks_from_code cfg env code lang fn = Inr (pc_chunks pc)"
    using code_process_chunks [OF assms] by blast
  then have "indexed_from 0 (pc_chunks pc) \<and> pc_chunks pc \<noteq> []"
    by (rule create_chunks_from_code_indexed)
  then show ?thesis
    by (simp add: indexed_from_def)
qed

theorem code_chunk_index_dense_witness:
  "(case code_process
      \<lparr>cc_enabled = True, max_lines_per_chunk = 100, cc_extract_functions = True,
       cc_extract_classes = True, cc_extract_imports = True\<rparr>
      \<lparr>path_name = (\<lambda>p. ''a.py''), path_suffix = (\<lambda>p. ''.py''),
       read_text = (\<lambda>p. Inr (''import os'' @ nl @ ''def f():'' @ nl @ ''  pass'' @ nl
                               @ ''def g():'' @ nl @ ''  pass'')),
       re_match_line = (\<lambda>language kind line.
          if kind = ''function'' \<and> take 4 line = ''def ''
          then Some \<lparr>lastindex = Some 1, group1 = Some (take 1 (drop 4 line))\<rparr>
          else None),
       re_findall = (\<lambda>language kind code.
          if kind = ''function'' then [[''f''], [''g'']] else [])\<rparr>
      \<lparr>source = ''local_file'', content_path = Some ''/src/a.py'', object_id = ''obj1''\<rparr> of
      Inr [pc] \<Rightarrow>
        map chunk_index (pc_chunks pc) = map int [0..<length (pc_chunks pc)]
        \<and> map chunk_index (pc_chunks pc) = [0, 1, 2]
    | _ \<Rightarrow> False)"
proof -
  define r where "r = code_process
      \<lparr>cc_enabled = True, max_lines_per_chunk = 100, cc_extract_functions = True,
       cc_extract_classes = True, cc_extract_imports = True\<rparr>
      \<lparr>path_name = (\<lambda>p. ''a.py''), path_suffix = (\<lambda>p. ''.py''),
       read_text = (\<lambda>p. Inr (''import os'' @ nl @ ''def f():'' @ nl @ ''  pass'' @ nl
                               @ ''def g():'' @ nl @ ''  pass'')),
       re_match_line = (\<lambda>language kind line.
          if kind = ''function'' \<and> take 4 line = ''def ''
          then Some \<lparr>lastindex = Some 1, group1 = Some (take 1 (drop 4 line))\<rparr>
          else None),
       re_findall = (\<lambda>language kind code.
          if kind = ''function'' then [[''f''], [''g'']] else [])\<rparr>
      \<lparr>source = ''local_file'', content_path = Some ''/src/a.py'', object_id = ''obj1''\<rparr>"
  have "(case r of Inr [pc] \<Rightarrow> map chunk_index (pc_chunks pc) = [0, 1, 2] | _ \<Rightarrow> False)"
    unfolding r_def by code_simp
  then obtain pc where pc: "r = Inr [pc]" and ix: "map chunk_index (pc_chunks pc) = [0, 1, 2]"
    by (auto split: sum.splits list.splits)
  have "pc \<in> set [pc]"
    by simp
  with pc [unfolded r_def]
  have "map chunk_index (pc_chunks pc) = map int [0..<length (pc_chunks pc)]
          \<and> pc_chunks pc \<noteq> []"
    by (rule code_chunk_index_dense)
  then show ?thesis
    using pc ix unfolding r_def by simp
qed


section \<open>Properties of the Excel processor\<close>

lemma row_chunks_loop_length:
  "row_chunks_loop cfg env sh df n is acc = Inr r \<Longrightarrow> length r = length acc + length is"
proof (induction "is" arbitrary: acc)
  case Nil
  then show ?case by simp
next
  case (Cons i "is")
  from Cons.prems obtain c where "row_chunks_loop cfg env sh df n is (acc @ [c]) = Inr r"
    by (auto simp: Let_def dest!: and_then_Inr)
  then have "length r = length (acc @ [c]) + length is"
    by (rule Cons.IH)
  then show ?case by simp
qed

lemma py_range_nonempty:
  "py_range 0 (int n) step = Inr is \<Longrightarrow> (is \<noteq> [] \<longleftrightarrow> 0 < n \<and> 0 < step)"
  by (auto simp: py_range_def range_up.simps [of 0] range_down.simps [of 0]
      split: if_splits)

lemma create_chunks_from_sheet_nonempty:
  assumes "create_chunks_from_sheet cfg env sh df n = Inr chunks"
  shows "chunks \<noteq> [] \<longleftrightarrow> sheet_has_chunks cfg df"
proof -
  from assms obtain hd_chunks where
    h: "(if \<not> df_empty df then
           and_then (Chunk
             (''Sheet: '' @ n @ nl
                @ ''Columns: '' @ join '', '' (df_columns df) @ nl
                @ ''Rows: '' @ str_int (int (df_len df)) @ '', Columns: ''
                @ str_int (int (length (df_columns df))) @ nl
                @ nl @ ''Data Types:'' @ nl
                @ join nl (map (\<lambda>(col, dtype). col @ '': '' @ dtype) (df_dtypes df)) @ nl
                @ (if length (df_numeric df) > 0 then
                     nl @ ''Numeric Summary:'' @ nl
                     @ concat (map (\<lambda>(col, mn, mx, mean).
                                 col @ '': min='' @ mn @ '', max='' @ mx @ '', mean='' @ mean @ nl)
                               (df_numeric df))
                   else []))
             0 [Some n, Some ''header'', Some ''metadata''] []) (\<lambda>c. Inr [c])
         else Inr []) = Inr hd_chunks"
    and rest: "and_then (py_range 0 (int (df_len df)) (max_rows_per_chunk cfg))
                 (\<lambda>is. row_chunks_loop cfg env sh df n is hd_chunks) = Inr chunks"
    unfolding create_chunks_from_sheet_def Let_def
    by (blast dest: and_then_Inr)
  from rest obtain "is" where
    r: "py_range 0 (int (df_len df)) (max_rows_per_chunk cfg) = Inr is"
    and l: "row_chunks_loop cfg env sh df n is hd_chunks = Inr chunks"
    by (blast dest: and_then_Inr)
  have len: "length chunks = length hd_chunks + length is"
    using l by (rule row_chunks_loop_length)
  have rng: "is \<noteq> [] \<longleftrightarrow> 0 < df_len df \<and> 0 < max_rows_per_chunk cfg"
    using r by (rule py_range_nonempty)
  show ?thesis
  proof (cases "df_empty df")
    case True
    with h have "hd_chunks = []"
      by simp
    with len rng True show ?thesis
      by (auto simp: sheet_has_chunks_def)
  next
    case False
    with h have "length hd_chunks = 1"
      by (auto dest!: and_then_Inr)
    with len False show ?thesis
      by (auto simp: sheet_has_chunks_def)
  qed
qed

lemma excel_create_processed_context_result:
  assumes "excel_create_processed_context raw chunks md n = Inr opc"
  shows "(chunks = [] \<longrightarrow> opc = None)
         \<and> (chunks \<noteq> [] \<longrightarrow> (\<exists>pc. opc = Some pc \<and> pc_id pc = object_id raw @ ''_'' @ n))"
  using assms unfolding excel_create_processed_context_def Let_def
  by (auto dest!: and_then_Inr split: if_splits)

lemma sheets_loop_ids:
  "sheets_loop cfg env context p wb names acc = Inr pcs \<Longrightarrow>
     map pc_id pcs = map pc_id acc
       @ map (\<lambda>n. object_id context @ ''_'' @ n) (filter (sheet_kept cfg env p) names)"
proof (induction names arbitrary: acc)
  case Nil
  then show ?case by simp
next
  case (Cons name names)
  from Cons.prems obtain md df chunks opc where
    df: "read_excel env p name = Inr df"
    and ch: "create_chunks_from_sheet cfg env (get_sheet wb name) df name = Inr chunks"
    and opc: "excel_create_processed_context context chunks md name = Inr opc"
    and rest: "sheets_loop cfg env context p wb names
                 (case opc of Some pc \<Rightarrow> acc @ [pc] | None \<Rightarrow> acc) = Inr pcs"
    by (auto simp: Let_def dest!: and_then_Inr)
  note ih = Cons.IH [OF rest]
  have kept: "sheet_kept cfg env p name \<longleftrightarrow> chunks \<noteq> []"
    using create_chunks_from_sheet_nonempty [OF ch] df by (simp add: sheet_kept_def)
  show ?case
  proof (cases "chunks = []")
    case True
    with excel_create_processed_context_result [OF opc] have "opc = None"
      by simp
    with ih kept True show ?thesis
      by simp
  next
    case False
    with excel_create_processed_context_result [OF opc] obtain pc where
      "opc = Some pc" and "pc_id pc = object_id context @ ''_'' @ name"
      by auto
    with ih kept False show ?thesis
      by simp
  qed
qed

text \<open>
  C2 as stated fails: a workbook with two sheets, the second blank, gives one context.
\<close>

theorem excel_empty_sheet_skipped:
  "(case excel_process
      \<lparr>xc_enabled = True, max_rows_per_chunk = 100, xc_extract_formulas = True,
       xc_extract_comments = True, xc_detect_tables = True\<rparr>
      \<lparr>path_name = (\<lambda>p. ''book.xlsx''), path_suffix = (\<lambda>p. ''.xlsx''),
       load_workbook = (\<lambda>p. Inr
         \<lparr>sheetnames = [''Data'', ''Empty''],
          get_sheet = (\<lambda>n. \<lparr>max_row = (if n = ''Data'' then 2 else 1),
                              max_column = 1, dimensions = ''A1:A2'',
                              sheet_tables = Some [], iter_rows = Inr [],
                              cell_value = (\<lambda>r c. PNone)\<rparr>)\<rparr>),
       read_excel = (\<lambda>p n. Inr
         (if n = ''Data''
          then \<lparr>df_columns = [''x''], df_len = 1, df_dtypes = [(''x'', ''int64'')],
                df_numeric = [(''x'', ''7'', ''7'', ''7.00'')],
                df_to_string = (\<lambda>i j. ''x'' @ nl @ ''7'')\<rparr>
          else \<lparr>df_columns = [], df_len = 0, df_dtypes = [], df_numeric = [],
                df_to_string = (\<lambda>i j. ''Empty DataFrame'')\<rparr>)),
       get_column_letter = (\<lambda>c. Inr ''A'')\<rparr>
      \<lparr>source = ''local_file'', content_path = Some ''/data/book.xlsx'',
       object_id = ''obj1''\<rparr> of
      Inr pcs \<Rightarrow> map pc_id pcs = [''obj1_Data''] \<and> length pcs = 1
               \<and> length [''Data'', ''Empty''] = 2
    | Inl e \<Rightarrow> False)"
  by code_simp

text \<open>
  C2 (amended).  When no step of \<open>ExcelProcessor.process\<close> raises, it returns one
  context for each sheet that gives at least one chunk, in the order of the workbook, with
  the id \<open>"{object_id}_{sheet_name}"\<close>; a sheet whose \<open>DataFrame\<close> is empty gives no
  chunk and no context.
\<close>

theorem excel_one_context_per_kept_sheet:
  assumes "excel_process_body cfg env context = Inr pcs"
    and "content_path context = Some file_path"
    and "load_workbook env file_path = Inr wb"
  shows "excel_process cfg env context = Inr pcs
         \<and> map pc_id pcs
             = map (\<lambda>sheet_name. object_id context @ ''_'' @ sheet_name)
                 (filter (sheet_kept cfg env file_path) (sheetnames wb))"
proof -
  from assms have "sheets_loop cfg env context file_path wb (sheetnames wb) [] = Inr pcs"
    by (simp add: excel_process_body_def and_then_def)
  from sheets_loop_ids [OF this] show ?thesis
    using assms(1) by (simp add: excel_process_def isolate_def)
qed

theorem excel_one_context_per_kept_sheet_witness:
  "(case excel_process_body
      \<lparr>xc_enabled = True, max_rows_per_chunk = 100, xc_extract_formulas = True,
       xc_extract_comments = True, xc_detect_tables = True\<rparr>
      \<lparr>path_name = (\<lambda>p. ''book.xlsx''), path_suffix = (\<lambda>p. ''.xlsx''),
       load_workbook = (\<lambda>p. Inr
         \<lparr>sheetnames = [''Data'', ''Empty''],
          get_sheet = (\<lambda>n. \<lparr>max_row = (if n = ''Data'' then 2 else 1),
                              max_column = 1, dimensions = ''A1:A2'',
                              sheet_tables = Some [], iter_rows = Inr [],
                              cell_value = (\<lambda>r c. PNone)\<rparr>)\<rparr>),
       read_excel = (\<lambda>p n. Inr
         (if n = ''Data''
          then \<lparr>df_columns = [''x''], df_len = 1, df_dtypes = [(''x'', ''int64'')],
                df_numeric = [(''x'', ''7'', ''7'', ''7.00'')],
                df_to_string = (\<lambda>i j. ''x'' @ nl @ ''7'')\<rparr>
          else \<lparr>df_columns = [], df_len = 0, df_dtypes = [], df_numeric = [],
                df_to_string = (\<lambda>i j. ''Empty DataFrame'')\<rparr>)),
       get_column_letter = (\<lambda>c. Inr ''A'')\<rparr>
      \<lparr>source = ''local_file'', content_path = Some ''/data/book.xlsx'',
       object_id = ''obj1''\<rparr> of
      Inr pcs \<Rightarrow>
        excel_process
          \<lparr>xc_enabled = True, max_rows_per_chunk = 100, xc_extract_formulas = True,
       xc_extract_comments = True, xc_detect_tables = True\<rparr>
          \<lparr>path_name = (\<lambda>p. ''book.xlsx''), path_suffix = (\<lambda>p. ''.xlsx''),
       load_workbook = (\<lambda>p. Inr
         \<lparr>sheetnames = [''Data'', ''Empty''],
          get_sheet = (\<lambda>n. \<lparr>max_row = (if n = ''Data'' then 2 else 1),
                              max_column = 1, dimensions = ''A1:A2'',
                              sheet_tables = Some [], iter_rows = Inr [],
                              cell_value = (\<lambda>r c. PNone)\<rparr>)\<rparr>),
       read_excel = (\<lambda>p n. Inr
         (if n = ''Data''
          then \<lparr>df_columns = [''x''], df_len = 1, df_dtypes = [(''x'', ''int64'')],
                df_numeric = [(''x'', ''7'', ''7'', ''7.00'')],
                df_to_string = (\<lambda>i j. ''x'' @ nl @ ''7'')\<rparr>
          else \<lparr>df_columns = [], df_len = 0, df_dtypes = [], df_numeric = [],
                df_to_string = (\<lambda>i j. ''Empty DataFrame'')\<rparr>)),
       get_column_letter = (\<lambda>c. Inr ''A'')\<rparr>
          \<lparr>source = ''local_file'', content_path = Some ''/data/book.xlsx'',
       object_id = ''obj1''\<rparr> = Inr pcs
        \<and> map pc_id pcs = [''obj1_Data'']
    | Inl e \<Rightarrow> False)"
proof -
  let ?cfg = "\<lparr>xc_enabled = True, max_rows_per_chunk = 100, xc_extract_formulas = True,
       xc_extract_comments = True, xc_detect_tables = True\<rparr>"
  let ?env = "\<lparr>path_name = (\<lambda>p. ''book.xlsx''), path_suffix = (\<lambda>p. ''.xlsx''),
       load_workbook = (\<lambda>p. Inr
         \<lparr>sheetnames = [''Data'', ''Empty''],
          get_sheet = (\<lambda>n. \<lparr>max_row = (if n = ''Data'' then 2 else 1),
                              max_column = 1, dimensions = ''A1:A2'',
                              sheet_tables = Some [], iter_rows = Inr [],
                              cell_value = (\<lambda>r c. PNone)\<rparr>)\<rparr>),
       read_excel = (\<lambda>p n. Inr
         (if n = ''Data''
          then \<lparr>df_columns = [''x''], df_len = 1, df_dtypes = [(''x'', ''int64'')],
                df_numeric = [(''x'', ''7'', ''7'', ''7.00'')],
                df_to_string = (\<lambda>i j. ''x'' @ nl @ ''7'')\<rparr>
          else \<lparr>df_columns = [], df_len = 0, df_dtypes = [], df_numeric = [],
                df_to_string = (\<lambda>i j. ''Empty DataFrame'')\<rparr>)),
       get_column_letter = (\<lambda>c. Inr ''A'')\<rparr>"
  let ?ctx = "\<lparr>source = ''local_file'', content_path = Some ''/data/book.xlsx'',
       object_id = ''obj1''\<rparr>"
  let ?wb = "\<lparr>sheetnames = [''Data'', ''Empty''],
          get_sheet = (\<lambda>n. \<lparr>max_row = (if n = ''Data'' then 2 else 1),
                              max_column = 1, dimensions = ''A1:A2'',
                              sheet_tables = Some [], iter_rows = Inr [],
                              cell_value = (\<lambda>r c. PNone)\<rparr>)\<rparr>"
  have "(case excel_process_body ?cfg ?env ?ctx of Inr pcs \<Rightarrow> True | Inl e \<Rightarrow> False)"
    by code_simp
  then obtain pcs where pcs: "excel_process_body ?cfg ?env ?ctx = Inr pcs"
    by (auto split: sum.splits)
  have p: "content_path ?ctx = Some ''/data/book.xlsx''"
    by simp
  have wb: "load_workbook ?env ''/data/book.xlsx'' = Inr ?wb"
    by simp
  have kept: "map (\<lambda>sheet_name. object_id ?ctx @ ''_'' @ sheet_name)
                (filter (sheet_kept ?cfg ?env ''/data/book.xlsx'') (sheetnames ?wb))
              = [''obj1_Data'']"
    by code_simp
  have "excel_process ?cfg ?env ?ctx = Inr pcs
         \<and> map pc_id pcs
             = map (\<lambda>sheet_name. object_id ?ctx @ ''_'' @ sheet_name)
                 (filter (sheet_kept ?cfg ?env ''/data/book.xlsx'') (sheetnames ?wb))"
    using pcs p wb by (rule excel_one_context_per_kept_sheet)
  then have "excel_process ?cfg ?env ?ctx = Inr pcs \<and> map pc_id pcs = [''obj1_Data'']"
    unfolding kept .
  then show ?thesis
    unfolding pcs by simp
qed

lemma extract_sheet_metadata_raises:
  assumes "xc_extract_comments cfg" and "iter_rows sh = Inl e"
  shows "\<exists>e'. extract_sheet_metadata cfg env sh p n = Inl e'"
proof (cases "xc_detect_tables cfg \<and> detect_table_ranges sh = Inl AttributeError")
  case True
  then show ?thesis
    by (simp add: extract_sheet_metadata_def Let_def and_then_def)
next
  case False
  then have "xc_detect_tables cfg \<longrightarrow> (\<exists>ts. detect_table_ranges sh = Inr ts)"
    by (cases "sheet_tables sh"; cases "the (sheet_tables sh)")
       (auto simp: detect_table_ranges_def)
  then show ?thesis
    using assms by (auto simp: extract_sheet_metadata_def Let_def and_then_def)
qed

lemma sheets_loop_failure:
  "name \<in> set names
     \<Longrightarrow> extract_sheet_metadata cfg env (get_sheet wb name) p name = Inl e
           \<or> read_excel env p name = Inl e
     \<Longrightarrow> \<exists>e'. sheets_loop cfg env context p wb names acc = Inl e'"
proof (induction names arbitrary: acc)
  case Nil
  then show ?case by simp
next
  case (Cons n names)
  show ?case
  proof (cases "n = name")
    case True
    with Cons.prems(2) show ?thesis
      by (auto simp: Let_def and_then_def split: sum.splits)
  next
    case False
    with Cons.prems have "name \<in> set names"
      by simp
    then have ih: "\<And>acc. \<exists>e'. sheets_loop cfg env context p wb names acc = Inl e'"
      using Cons.IH Cons.prems(2) by blast
    show ?thesis
      using ih by (auto simp: Let_def and_then_def split: sum.splits)
  qed
qed

lemma sheets_loop_comment_failure:
  assumes "xc_extract_comments cfg" and "name \<in> set names"
    and "iter_rows (get_sheet wb name) = Inl e"
  shows "\<exists>e'. sheets_loop cfg env context p wb names acc = Inl e'"
proof -
  obtain e0 where "extract_sheet_metadata cfg env (get_sheet wb name) p name = Inl e0"
    using extract_sheet_metadata_raises [OF assms(1,3)] by blast
  then have "extract_sheet_metadata cfg env (get_sheet wb name) p name = Inl e0
             \<or> read_excel env p name = Inl e0"
    by (rule disjI1)
  with assms(2) show ?thesis
    by (rule sheets_loop_failure)
qed

text \<open>
  The detection of the tables fails in the same way: with it enabled, a sheet that has a
  named table makes \<open>_detect_table_ranges\<close> raise, and \<open>process\<close> returns the empty
  list.
\<close>

lemma excel_named_table_aborts:
  assumes "xc_detect_tables cfg"
    and "content_path context = Some file_path"
    and "load_workbook env file_path = Inr wb"
    and "sheet_name \<in> set (sheetnames wb)"
    and "sheet_tables (get_sheet wb sheet_name) = Some (t # ts)"
  shows "excel_process cfg env context = Inr []"
proof -
  have "detect_table_ranges (get_sheet wb sheet_name) = Inl AttributeError"
    using assms(5) by (cases t) (simp add: detect_table_ranges_def)
  then have "extract_sheet_metadata cfg env (get_sheet wb sheet_name) file_path sheet_name
               = Inl AttributeError"
    using assms(1) by (simp add: extract_sheet_metadata_def Let_def and_then_def)
  then have "extract_sheet_metadata cfg env (get_sheet wb sheet_name) file_path sheet_name
               = Inl AttributeError
             \<or> read_excel env file_path sheet_name = Inl AttributeError"
    by (rule disjI1)
  with assms(4) obtain e' where
    "sheets_loop cfg env context file_path wb (sheetnames wb) [] = Inl e'"
    using sheets_loop_failure by blast
  then have "excel_process_body cfg env context = Inl e'"
    using assms(2,3) by (simp add: excel_process_body_def and_then_def)
  then show ?thesis
    unfolding excel_process_def by (rule isolate_Inl)
qed

text \<open>
  C3 as stated fails: when the walk over the cells of the only sheet raises, no context is
  emitted, although the same workbook gives one when the walk succeeds.
\<close>

theorem excel_comment_failure_no_context:
  "excel_process
      \<lparr>xc_enabled = True, max_rows_per_chunk = 100, xc_extract_formulas = True,
       xc_extract_comments = True, xc_detect_tables = True\<rparr>
      \<lparr>path_name = (\<lambda>p. ''book.xlsx''), path_suffix = (\<lambda>p. ''.xlsx''),
       load_workbook = (\<lambda>p. Inr
         \<lparr>sheetnames = [''Data''],
          get_sheet = (\<lambda>n. \<lparr>max_row = 2, max_column = 1, dimensions = ''A1:A2'',
                              sheet_tables = Some [], iter_rows = Inl LibraryError,
                              cell_value = (\<lambda>r c. PNone)\<rparr>)\<rparr>),
       read_excel = (\<lambda>p n. Inr
          \<lparr>df_columns = [''x''], df_len = 1, df_dtypes = [(''x'', ''int64'')],
                df_numeric = [(''x'', ''7'', ''7'', ''7.00'')],
                df_to_string = (\<lambda>i j. ''x'' @ nl @ ''7'')\<rparr>),
       get_column_letter = (\<lambda>c. Inr ''A'')\<rparr>
      \<lparr>source = ''local_file'', content_path = Some ''/data/book.xlsx'',
       object_id = ''obj1''\<rparr>
   = Inr []
   \<and> (case excel_process
      \<lparr>xc_enabled = True, max_rows_per_chunk = 100, xc_extract_formulas = True,
       xc_extract_comments = True, xc_detect_tables = True\<rparr>
      \<lparr>path_name = (\<lambda>p. ''book.xlsx''), path_suffix = (\<lambda>p. ''.xlsx''),
       load_workbook = (\<lambda>p. Inr
         \<lparr>sheetnames = [''Data''],
          get_sheet = (\<lambda>n. \<lparr>max_row = 2, max_column = 1, dimensions = ''A1:A2'',
                              sheet_tables = Some [], iter_rows = Inr [],
                              cell_value = (\<lambda>r c. PNone)\<rparr>)\<rparr>),
       read_excel = (\<lambda>p n. Inr
          \<lparr>df_columns = [''x''], df_len = 1, df_dtypes = [(''x'', ''int64'')],
                df_numeric = [(''x'', ''7'', ''7'', ''7.00'')],
                df_to_string = (\<lambda>i j. ''x'' @ nl @ ''7'')\<rparr>),
       get_column_letter = (\<lambda>c. Inr ''A'')\<rparr>
      \<lparr>source = ''local_file'', content_path = Some ''/data/book.xlsx'',
       object_id = ''obj1''\<rparr> of
        Inr pcs \<Rightarrow> map pc_id pcs = [''obj1_Data'']
      | Inl e \<Rightarrow> False)"
  by code_simp

text \<open>
  C3 (amended).  A failure raised while the comments of the cells of any sheet are
  extracted is not isolated: it leaves \<open>_extract_sheet_metadata\<close>, the handler of
  \<open>process\<close> catches it, and the call returns the empty list; no context is emitted for
  any sheet of the workbook.
\<close>

theorem excel_comment_failure_aborts:
  assumes "xc_extract_comments cfg"
    and "content_path context = Some file_path"
    and "load_workbook env file_path = Inr wb"
    and "sheet_name \<in> set (sheetnames wb)"
    and "iter_rows (get_sheet wb sheet_name) = Inl e"
  shows "excel_process cfg env context = Inr []"
proof -
  obtain e' where "sheets_loop cfg env context file_path wb (sheetnames wb) [] = Inl e'"
    using sheets_loop_comment_failure [OF assms(1,4,5)] by blast
  then have "excel_process_body cfg env context = Inl e'"
    using assms(2,3) by (simp add: excel_process_body_def and_then_def)
  then show ?thesis
    unfolding excel_process_def by (rule isolate_Inl)
qed

theorem excel_comment_failure_aborts_witness:
  "xc_extract_comments
      \<lparr>xc_enabled = True, max_rows_per_chunk = 100, xc_extract_formulas = True,
       xc_extract_comments = True, xc_detect_tables = True\<rparr>
   \<and> ''Data'' \<in> set (sheetnames
         \<lparr>sheetnames = [''Data''],
          get_sheet = (\<lambda>n. \<lparr>max_row = 2, max_column = 1, dimensions = ''A1:A2'',
                              sheet_tables = Some [], iter_rows = Inl LibraryError,
                              cell_value = (\<lambda>r c. PNone)\<rparr>)\<rparr>)
   \<and> iter_rows (get_sheet
         \<lparr>sheetnames = [''Data''],
          get_sheet = (\<lambda>n. \<lparr>max_row = 2, max_column = 1, dimensions = ''A1:A2'',
                              sheet_tables = Some [], iter_rows = Inl LibraryError,
                              cell_value = (\<lambda>r c. PNone)\<rparr>)\<rparr> ''Data'') = Inl LibraryError
   \<and> excel_process
      \<lparr>xc_enabled = True, max_rows_per_chunk = 100, xc_extract_formulas = True,
       xc_extract_comments = True, xc_detect_tables = True\<rparr>
      \<lparr>path_name = (\<lambda>p. ''book.xlsx''), path_suffix = (\<lambda>p. ''.xlsx''),
       load_workbook = (\<lambda>p. Inr
         \<lparr>sheetnames = [''Data''],
          get_sheet = (\<lambda>n. \<lparr>max_row = 2, max_column = 1, dimensions = ''A1:A2'',
                              sheet_tables = Some [], iter_rows = Inl LibraryError,
                              cell_value = (\<lambda>r c. PNone)\<rparr>)\<rparr>),
       read_excel = (\<lambda>p n. Inr
          \<lparr>df_columns = [''x''], df_len = 1, df_dtypes = [(''x'', ''int64'')],
                df_numeric = [(''x'', ''7'', ''7'', ''7.00'')],
                df_to_string = (\<lambda>i j. ''x'' @ nl @ ''7'')\<rparr>),
       get_column_letter = (\<lambda>c. Inr ''A'')\<rparr>
      \<lparr>source = ''local_file'', content_path = Some ''/data/book.xlsx'',
       object_id = ''obj1''\<rparr>
   = Inr []"
proof -
  let ?cfg = "\<lparr>xc_enabled = True, max_rows_per_chunk = 100, xc_extract_formulas = True,
       xc_extract_comments = True, xc_detect_tables = True\<rparr>"
  let ?env = "\<lparr>path_name = (\<lambda>p. ''book.xlsx''), path_suffix = (\<lambda>p. ''.xlsx''),
       load_workbook = (\<lambda>p. Inr
         \<lparr>sheetnames = [''Data''],
          get_sheet = (\<lambda>n. \<lparr>max_row = 2, max_column = 1, dimensions = ''A1:A2'',
                              sheet_tables = Some [], iter_rows = Inl LibraryError,
                              cell_value = (\<lambda>r c. PNone)\<rparr>)\<rparr>),
       read_excel = (\<lambda>p n. Inr
          \<lparr>df_columns = [''x''], df_len = 1, df_dtypes = [(''x'', ''int64'')],
                df_numeric = [(''x'', ''7'', ''7'', ''7.00'')],
                df_to_string = (\<lambda>i j. ''x'' @ nl @ ''7'')\<rparr>),
       get_column_letter = (\<lambda>c. Inr ''A'')\<rparr>"
  let ?ctx = "\<lparr>source = ''local_file'', content_path = Some ''/data/book.xlsx'',
       object_id = ''obj1''\<rparr>"
  let ?wb = "\<lparr>sheetnames = [''Data''],
          get_sheet = (\<lambda>n. \<lparr>max_row = 2, max_column = 1, dimensions = ''A1:A2'',
                              sheet_tables = Some [], iter_rows = Inl LibraryError,
                              cell_value = (\<lambda>r c. PNone)\<rparr>)\<rparr>"
  have c: "xc_extract_comments ?cfg"
    by simp
  have p: "content_path ?ctx = Some ''/data/book.xlsx''"
    by simp
  have wb: "load_workbook ?env ''/data/book.xlsx'' = Inr ?wb"
    by simp
  have n: "''Data'' \<in> set (sheetnames ?wb)"
    by simp
  have f: "iter_rows (get_sheet ?wb ''Data'') = Inl LibraryError"
    by simp
  have "excel_process ?cfg ?env ?ctx = Inr []"
    using c p wb n f by (rule excel_comment_failure_aborts)
  with c n f show ?thesis
    by (intro conjI)
qed


section \<open>Properties of the structured data processor\<close>

lemma json_dumps_nested_example:
  "json_dumps (PDict [(PStr ''c'', PList [PInt 1, PInt 2, PInt 3])])
     = Inr (''{\<newline>  '' @ dq @ ''c'' @ dq @ '': [\<newline>    1,\<newline>    2,\<newline>    3\<newline>  ]\<newline>}'')"
  by code_simp

text \<open>
  C7.  For the mapping \<open>{"a": 1, "b": {"c": [1, 2, 3]}}\<close> the chunks are three: the
  overview with index 0, the pair \<open>path: value\<close> for \<open>a\<close>, and for \<open>b\<close> the path, the
  type and the indented serialisation of \<open>{"c": [1, 2, 3]}\<close>, which is shorter than 2000
  characters and so is not cut.  This holds for every file name and configuration.
\<close>

theorem structured_example_chunks:
  "create_chunks_from_data cfg
     (PDict [(PStr ''a'', PInt 1),
             (PStr ''b'', PDict [(PStr ''c'', PList [PInt 1, PInt 2, PInt 3])])])
     file_name []
   = Inr
      [\<lparr>chunk_text =
          ''File: '' @ file_name @ ''\<newline>Type: dict\<newline>Top-level keys: a, b\<newline>\<newline>Preview:\<newline>''
          @ ''{\<newline>  '' @ dq @ ''a'' @ dq @ '': 1,\<newline>  '' @ dq @ ''b'' @ dq @ '': {\<newline>    ''
          @ dq @ ''c'' @ dq @ '': [\<newline>      1,\<newline>      2,\<newline>      3\<newline>    ]\<newline>  }\<newline>}\<newline>'',
        chunk_index = 0,
        chunk_keywords = [file_name, ''overview'', ''structure''],
        chunk_entities = []\<rparr>,
       \<lparr>chunk_text = ''Path: a\<newline>Value: 1\<newline>'',
        chunk_index = 1,
        chunk_keywords = [file_name, ''a'', ''a''],
        chunk_entities = []\<rparr>,
       \<lparr>chunk_text =
          ''Path: b\<newline>Type: dict\<newline>Content:\<newline>''
          @ ''{\<newline>  '' @ dq @ ''c'' @ dq @ '': [\<newline>    1,\<newline>    2,\<newline>    3\<newline>  ]\<newline>}''
          @ ''\<newline>'',
        chunk_index = 2,
        chunk_keywords = [file_name, ''b'', ''b'', ''dict''],
        chunk_entities = []\<rparr>]"
  by code_simp

theorem structured_example_chunks_witness:
  "create_chunks_from_data
     \<lparr>sd_enabled = True, max_depth = 10, max_array_items_per_chunk = 50,
       preserve_structure = True\<rparr>
     (PDict [(PStr ''a'', PInt 1),
             (PStr ''b'', PDict [(PStr ''c'', PList [PInt 1, PInt 2, PInt 3])])])
     ''data.json'' []
   = Inr
      [\<lparr>chunk_text =
          ''File: '' @ ''data.json'' @ ''\<newline>Type: dict\<newline>Top-level keys: a, b\<newline>\<newline>Preview:\<newline>''
          @ ''{\<newline>  '' @ dq @ ''a'' @ dq @ '': 1,\<newline>  '' @ dq @ ''b'' @ dq @ '': {\<newline>    ''
          @ dq @ ''c'' @ dq @ '': [\<newline>      1,\<newline>      2,\<newline>      3\<newline>    ]\<newline>  }\<newline>}\<newline>'',
        chunk_index = 0,
        chunk_keywords = [''data.json'', ''overview'', ''structure''],
        chunk_entities = []\<rparr>,
       \<lparr>chunk_text = ''Path: a\<newline>Value: 1\<newline>'',
        chunk_index = 1,
        chunk_keywords = [''data.json'', ''a'', ''a''],
        chunk_entities = []\<rparr>,
       \<lparr>chunk_text =
          ''Path: b\<newline>Type: dict\<newline>Content:\<newline>''
          @ ''{\<newline>  '' @ dq @ ''c'' @ dq @ '': [\<newline>    1,\<newline>    2,\<newline>    3\<newline>  ]\<newline>}''
          @ ''\<newline>'',
        chunk_index = 2,
        chunk_keywords = [''data.json'', ''b'', ''b'', ''dict''],
        chunk_entities = []\<rparr>]"
  by (rule structured_example_chunks)

lemma load_file_yaml_none:
  assumes "lower (path_suffix env file_path) = ''.yaml''
           \<or> lower (path_suffix env file_path) = ''.yml''"
    and "sd_read_text env file_path = Inr f"
    and "yaml_safe_load env f = Inr PNone \<or> yaml_safe_load env f = Inl e"
  shows "load_file env file_path = PNone"
proof -
  from assms(1) have "lower (path_suffix env file_path) \<noteq> ''.jsonl''"
    by auto
  moreover from assms(1) have "lower (path_suffix env file_path) \<in> set [''.yaml'', ''.yml'']"
    by auto
  ultimately have "load_file env file_path
      = (case yaml_safe_load env f of Inl e \<Rightarrow> PNone | Inr v \<Rightarrow> v)"
    using assms(2) by (simp add: load_file_def and_then_def)
  then show ?thesis
    using assms(3) by auto
qed

text \<open>
  C9.  A \<open>.yaml\<close> or \<open>.yml\<close> file whose document is \<open>None\<close> gives the empty list, as
  does one that \<open>yaml.safe_load\<close> rejects: \<open>_load_file\<close> returns \<open>None\<close> in both cases
  and \<open>process\<close> returns before it builds any context.
\<close>

theorem yaml_null_document_empty:
  assumes "content_path context = Some file_path"
    and "lower (path_suffix env file_path) = ''.yaml''
         \<or> lower (path_suffix env file_path) = ''.yml''"
    and "sd_read_text env file_path = Inr f"
    and "yaml_safe_load env f = Inr PNone \<or> yaml_safe_load env f = Inl e"
  shows "sd_process cfg env context = Inr []"
proof -
  have "load_file env file_path = PNone"
    using assms(2-4) by (rule load_file_yaml_none)
  then have "sd_process_body cfg env context = Inr []"
    using assms(1) by (simp add: sd_process_body_def)
  then show ?thesis
    by (simp add: sd_process_def isolate_def)
qed

theorem yaml_null_document_empty_witness:
  "lower (path_suffix
      \<lparr>path_name = (\<lambda>p. ''conf.YML''), path_suffix = (\<lambda>p. ''.YML''),
       sd_read_text = (\<lambda>p. Inr ''# nothing here''),
       json_loads = (\<lambda>s. Inl ParseError),
       yaml_safe_load = (\<lambda>s. Inr PNone)\<rparr> ''/etc/conf.YML'') = ''.yml''
   \<and> yaml_safe_load
      \<lparr>path_name = (\<lambda>p. ''conf.YML''), path_suffix = (\<lambda>p. ''.YML''),
       sd_read_text = (\<lambda>p. Inr ''# nothing here''),
       json_loads = (\<lambda>s. Inl ParseError),
       yaml_safe_load = (\<lambda>s. Inr PNone)\<rparr> ''# nothing here'' = Inr PNone
   \<and> sd_process
      \<lparr>sd_enabled = True, max_depth = 10, max_array_items_per_chunk = 50,
       preserve_structure = True\<rparr>
      \<lparr>path_name = (\<lambda>p. ''conf.YML''), path_suffix = (\<lambda>p. ''.YML''),
       sd_read_text = (\<lambda>p. Inr ''# nothing here''),
       json_loads = (\<lambda>s. Inl ParseError),
       yaml_safe_load = (\<lambda>s. Inr PNone)\<rparr>
      \<lparr>source = ''local_file'', content_path = Some ''/etc/conf.YML'',
       object_id = ''obj2''\<rparr> = Inr []"
proof -
  let ?cfg = "\<lparr>sd_enabled = True, max_depth = 10, max_array_items_per_chunk = 50,
       preserve_structure = True\<rparr>"
  let ?env = "\<lparr>path_name = (\<lambda>p. ''conf.YML''), path_suffix = (\<lambda>p. ''.YML''),
       sd_read_text = (\<lambda>p. Inr ''# nothing here''),
       json_loads = (\<lambda>s. Inl ParseError),
       yaml_safe_load = (\<lambda>s. Inr PNone)\<rparr>"
  let ?ctx = "\<lparr>source = ''local_file'', content_path = Some ''/etc/conf.YML'',
       object_id = ''obj2''\<rparr>"
  have p: "content_path ?ctx = Some ''/etc/conf.YML''"
    by simp
  have s: "lower (path_suffix ?env ''/etc/conf.YML'') = ''.yml''"
    by code_simp
  then have s': "lower (path_suffix ?env ''/etc/conf.YML'') = ''.yaml''
                 \<or> lower (path_suffix ?env ''/etc/conf.YML'') = ''.yml''"
    by (rule disjI2)
  have r: "sd_read_text ?env ''/etc/conf.YML'' = Inr ''# nothing here''"
    by simp
  have y: "yaml_safe_load ?env ''# nothing here'' = Inr PNone"
    by simp
  then have y': "yaml_safe_load ?env ''# nothing here'' = Inr PNone
                 \<or> yaml_safe_load ?env ''# nothing here'' = Inl ParseError"
    by (rule disjI1)
  have "sd_process ?cfg ?env ?ctx = Inr []"
    using p s' r y' by (rule yaml_null_document_empty)
  with s y show ?thesis
    by (intro conjI)
qed


section \<open>The handlers of the three processors\<close>











end
